theory Spec2Isabelle
  imports Complex_Main "HOL-Library.AList"
begin

section \<open>Values and exceptions\<close>

text \<open>
  The program keeps its records as the values that \<^verbatim>\<open>json.loads\<close> returns: \<^verbatim>\<open>None\<close>,
  booleans, integers, floats, strings, lists and dictionaries with string keys. A
  dictionary is an association list in insertion order. A finite float is taken as the
  real number it denotes and float arithmetic as exact: the rounding of a sum or a
  difference, and the \<^verbatim>\<open>OverflowError\<close> of adding a float to an integer beyond the range
  of floats, are left out. \<^verbatim>\<open>NaN\<close> and the infinities are not values of the model.
\<close>

datatype json =
    JNull
  | JBool bool
  | JInt int
  | JFloat real
  | JStr string
  | JList "json list"
  | JObj "(string \<times> json) list"

type_synonym dict = "(string \<times> json) list"

text \<open>
  The exceptions of Python that the modelled code can raise. \<^verbatim>\<open>UnicodeDecodeError\<close> and
  \<^verbatim>\<open>JSONDecodeError\<close> are subclasses of \<^verbatim>\<open>ValueError\<close>: a handler for \<^verbatim>\<open>ValueError\<close>
  catches them too.
\<close>

datatype error =
    KeyError
  | TypeError
  | AttributeError
  | ValueError
  | UnicodeDecodeError
  | JSONDecodeError
  | RecursionError

definition is_ValueError :: "error \<Rightarrow> bool" where
  "is_ValueError e = (e = ValueError \<or> e = UnicodeDecodeError \<or> e = JSONDecodeError)"

text \<open>Sequencing of computations that may raise.\<close>

definition and_then :: "error + 'a \<Rightarrow> ('a \<Rightarrow> error + 'b) \<Rightarrow> error + 'b" where
  "and_then r f = (case r of Inl e \<Rightarrow> Inl e | Inr x \<Rightarrow> f x)"

text \<open>
  \<^verbatim>\<open>r[key]\<close> with a string key: a dictionary gives the value or raises \<^verbatim>\<open>KeyError\<close>;
  every other value raises \<^verbatim>\<open>TypeError\<close>.
\<close>

fun getitem :: "json \<Rightarrow> string \<Rightarrow> error + json" where
  "getitem (JObj d) k = (case map_of d k of None \<Rightarrow> Inl KeyError | Some v \<Rightarrow> Inr v)"
| "getitem _ k = Inl TypeError"

text \<open>Numbers of Python: \<^verbatim>\<open>bool\<close> is a subclass of \<^verbatim>\<open>int\<close>.\<close>

fun int_val :: "json \<Rightarrow> int option" where
  "int_val (JBool b) = Some (if b then 1 else 0)"
| "int_val (JInt i) = Some i"
| "int_val _ = None"

fun num_val :: "json \<Rightarrow> real option" where
  "num_val (JFloat x) = Some x"
| "num_val v = map_option of_int (int_val v)"

text \<open>
  \<^verbatim>\<open>a == b\<close>: numbers compare by value across \<^verbatim>\<open>bool\<close>, \<^verbatim>\<open>int\<close> and \<^verbatim>\<open>float\<close>, lists
  element by element, dictionaries key by key whatever the order of the keys.
\<close>

fun py_eq :: "json \<Rightarrow> json \<Rightarrow> bool"
  and py_eq_list :: "json list \<Rightarrow> json list \<Rightarrow> bool"
  and py_eq_items :: "dict \<Rightarrow> dict \<Rightarrow> bool"
where
  "py_eq JNull b = (b = JNull)"
| "py_eq (JBool x) b = (num_val b = Some (if x then 1 else 0))"
| "py_eq (JInt i) b = (num_val b = Some (of_int i))"
| "py_eq (JFloat x) b = (num_val b = Some x)"
| "py_eq (JStr s) b = (b = JStr s)"
| "py_eq (JList xs) b = (case b of JList ys \<Rightarrow> py_eq_list xs ys | _ \<Rightarrow> False)"
| "py_eq (JObj d) b =
     (case b of JObj e \<Rightarrow> length d = length e \<and> py_eq_items d e | _ \<Rightarrow> False)"
| "py_eq_list [] ys = (ys = [])"
| "py_eq_list (x # xs) ys =
     (case ys of [] \<Rightarrow> False | y # ys' \<Rightarrow> py_eq x y \<and> py_eq_list xs ys')"
| "py_eq_items [] e = True"
| "py_eq_items (kv # d) e =
     (case map_of e (fst kv) of
        None \<Rightarrow> False
      | Some w \<Rightarrow> py_eq (snd kv) w \<and> py_eq_items d e)"

text \<open>Truth value of a value in a condition.\<close>

fun truthy :: "json \<Rightarrow> bool" where
  "truthy JNull = False"
| "truthy (JBool b) = b"
| "truthy (JInt i) = (i \<noteq> 0)"
| "truthy (JFloat x) = (x \<noteq> 0)"
| "truthy (JStr s) = (s \<noteq> [])"
| "truthy (JList xs) = (xs \<noteq> [])"
| "truthy (JObj d) = (d \<noteq> [])"

text \<open>\<^verbatim>\<open>len(v)\<close>: defined on strings, lists and dictionaries.\<close>

fun py_len :: "json \<Rightarrow> error + nat" where
  "py_len (JStr s) = Inr (length s)"
| "py_len (JList xs) = Inr (length xs)"
| "py_len (JObj d) = Inr (length d)"
| "py_len _ = Inl TypeError"

text \<open>\<^verbatim>\<open>v >= n\<close> for an integer literal \<open>n\<close>: defined on numbers only.\<close>

definition py_ge :: "json \<Rightarrow> int \<Rightarrow> error + bool" where
  "py_ge v n = (case num_val v of None \<Rightarrow> Inl TypeError | Some x \<Rightarrow> Inr (of_int n \<le> x))"

text \<open>
  \<^verbatim>\<open>a + b\<close> and \<^verbatim>\<open>a - b\<close>. Two integers (or booleans) give an integer, a float on either
  side gives a float. \<^verbatim>\<open>+\<close> also concatenates two strings and two lists.
\<close>

definition py_add :: "json \<Rightarrow> json \<Rightarrow> error + json" where
  "py_add a b =
     (case (a, b) of
        (JStr s, JStr t) \<Rightarrow> Inr (JStr (s @ t))
      | (JList xs, JList ys) \<Rightarrow> Inr (JList (xs @ ys))
      | _ \<Rightarrow>
         (case (int_val a, int_val b) of
            (Some i, Some j) \<Rightarrow> Inr (JInt (i + j))
          | _ \<Rightarrow>
             (case (num_val a, num_val b) of
                (Some x, Some y) \<Rightarrow> Inr (JFloat (x + y))
              | _ \<Rightarrow> Inl TypeError)))"

definition py_sub :: "json \<Rightarrow> json \<Rightarrow> error + json" where
  "py_sub a b =
     (case (int_val a, int_val b) of
        (Some i, Some j) \<Rightarrow> Inr (JInt (i - j))
      | _ \<Rightarrow>
         (case (num_val a, num_val b) of
            (Some x, Some y) \<Rightarrow> Inr (JFloat (x - y))
          | _ \<Rightarrow> Inl TypeError))"

section \<open>FileHandler\<close>

text \<open>
  What the program prints, as far as it reports an outcome. Banners, prompts and the
  rendering of tables are left out; the exceptions that building a table can raise are
  kept.
\<close>

datatype msg =
    Error_reading_file
  | Error_writing_file
  | Employee_not_found
  | Course_not_found
  | Course_assigned json json
  | Professor_not_found
  | No_assigned_courses
  | Invalid_course_number
  | Invalid_input
  | Course_unassigned json
  | Student_not_found
  | Too_many_courses
  | Balance_too_high
  | No_courses_found
  | Invalid_CRN
  | Course_registered
  | No_courses_to_unregister
  | Course_unregistered json

text \<open>
  A regular file as it presents itself when it is opened with the encoding UTF-8 and
  iterated over. \<open>Text s\<close> is a file whose bytes decode to the text \<open>s\<close>.
  \<open>Undecodable s\<close> is a file that holds bytes which are not valid UTF-8: the lines of
  \<open>s\<close>, the text decoded before the decoder meets them, are yielded, and then the
  decoder raises \<^verbatim>\<open>UnicodeDecodeError\<close>. A short file with such bytes is
  \<open>Undecodable []\<close>.
\<close>

datatype file_data = Text string | Undecodable string

fun delivered :: "file_data \<Rightarrow> string" where
  "delivered (Text s) = s"
| "delivered (Undecodable s) = s"

fun decodes :: "file_data \<Rightarrow> bool" where
  "decodes (Text s) = True"
| "decodes (Undecodable s) = False"

text \<open>
  The file system: every regular file that exists, and the names that
  \<^verbatim>\<open>open(name, "w")\<close> refuses with an \<^verbatim>\<open>IOError\<close>. The process may read every file.
\<close>

record world =
  files :: "string \<Rightarrow> file_data option"
  unwritable :: "string set"

abbreviation LF :: char where "LF \<equiv> CHR 0x0A"
abbreviation CR :: char where "CR \<equiv> CHR 0x0D"

text \<open>
  A file opened for reading in text mode translates \<^verbatim>\<open>\r\n\<close> and \<^verbatim>\<open>\r\<close> to \<^verbatim>\<open>\n\<close>;
  iterating over it yields the lines, each with its line feed, the last one possibly
  without.
\<close>

fun universal_newlines :: "string \<Rightarrow> string" where
  "universal_newlines [] = []"
| "universal_newlines [c] = (if c = CR then [LF] else [c])"
| "universal_newlines (c # d # cs) =
     (if c = CR \<and> d = LF then LF # universal_newlines cs
      else if c = CR then LF # universal_newlines (d # cs)
      else c # universal_newlines (d # cs))"

fun file_lines :: "string \<Rightarrow> string list" where
  "file_lines [] = []"
| "file_lines (c # cs) =
     (if c = LF then [LF] # file_lines cs
      else (case file_lines cs of [] \<Rightarrow> [[c]] | l # ls \<Rightarrow> (c # l) # ls))"

text \<open>
  \<^verbatim>\<open>json.loads\<close> and \<^verbatim>\<open>json.dumps\<close> belong to the standard library and are parameters:
  \<open>loads line\<close> is the value parsed or the exception that \<^verbatim>\<open>json.loads(line)\<close> raises.

  The list comprehension \<^verbatim>\<open>[json.loads(line) for line in file]\<close>: the lines are parsed
  in the order in which the file yields them, and the first exception ends it, be it
  raised by \<^verbatim>\<open>json.loads\<close> on a line or by the decoder after the last line it yields.
\<close>

fun parse_lines :: "(string \<Rightarrow> error + json) \<Rightarrow> string list \<Rightarrow> error + json list" where
  "parse_lines loads [] = Inr []"
| "parse_lines loads (l # ls) =
     (case loads l of
        Inl e \<Rightarrow> Inl e
      | Inr v \<Rightarrow> (case parse_lines loads ls of Inl e \<Rightarrow> Inl e | Inr vs \<Rightarrow> Inr (v # vs)))"

definition load_all :: "(string \<Rightarrow> error + json) \<Rightarrow> file_data \<Rightarrow> error + json list" where
  "load_all loads f =
     (case parse_lines loads (file_lines (universal_newlines (delivered f))) of
        Inl e \<Rightarrow> Inl e
      | Inr records \<Rightarrow> if decodes f then Inr records else Inl UnicodeDecodeError)"

text \<open>
  \<^verbatim>\<open>read_records_file\<close>: no file, no records. Otherwise the records of all lines; a
  \<^verbatim>\<open>JSONDecodeError\<close> is caught, the error is printed and there are no records; any other
  exception is raised to the caller. (The handler also names \<^verbatim>\<open>FileNotFoundError\<close>,
  which cannot arise once \<^verbatim>\<open>os.path.isfile\<close> has answered.)
\<close>

definition read_records_file ::
  "(string \<Rightarrow> error + json) \<Rightarrow> string \<Rightarrow> world \<Rightarrow> error + json list \<times> msg list" where
  "read_records_file loads file_name w =
     (case files w file_name of
        None \<Rightarrow> Inr ([], [])
      | Some f \<Rightarrow>
         (case load_all loads f of
            Inl e \<Rightarrow> if e = JSONDecodeError then Inr ([], [Error_reading_file]) else Inl e
          | Inr records \<Rightarrow> Inr (records, [])))"

text \<open>
  \<^verbatim>\<open>write_record\<close>: the file is replaced by one line per record; when it cannot be
  opened the error is printed and nothing is written.
\<close>

definition write_record ::
  "(json \<Rightarrow> string) \<Rightarrow> string \<Rightarrow> json list \<Rightarrow> world \<Rightarrow> world \<times> msg list" where
  "write_record dumps file_name records w =
     (if file_name \<in> unwritable w then (w, [Error_writing_file])
      else (w\<lparr>files :=
                (files w)(file_name \<mapsto> Text (concat (map (\<lambda>r. dumps r @ [LF]) records)))\<rparr>,
            []))"

section \<open>Employee\<close>

text \<open>
  The class \<^verbatim>\<open>Employee\<close> with the attributes it inherits from \<^verbatim>\<open>Person\<close>, under the
  names Python gives private attributes. \<^verbatim>\<open>Course\<close> defines no equality, so \<^verbatim>\<open>in\<close> and
  \<^verbatim>\<open>list.remove\<close> compare course objects by identity: the list holds references.
\<close>

type_synonym course_ref = nat

record Person =
  Person_name :: string
  Person_mem_id :: string
  Person_dob :: string
  Person_address :: "(string \<times> string) list"

record Employee = Person +
  Employee_department :: string
  Employee_courses :: "course_ref list"
  Employee_salary :: int

definition BASE_SALARY :: int where
  "BASE_SALARY = 30000"

definition PER_COURSE_BONUS :: int where
  "PER_COURSE_BONUS = 5000"

definition Employee_init ::
  "string \<Rightarrow> string \<Rightarrow> string \<Rightarrow> (string \<times> string) list \<Rightarrow> string \<Rightarrow> Employee" where
  "Employee_init name mem_id dob address department =
     \<lparr>Person_name = name, Person_mem_id = mem_id, Person_dob = dob, Person_address = address,
      Employee_department = department, Employee_courses = [], Employee_salary = BASE_SALARY\<rparr>"

definition assign_course :: "Employee \<Rightarrow> course_ref \<Rightarrow> Employee" where
  "assign_course self course =
     (let courses = Employee_courses self @ [course]
      in self\<lparr>Employee_courses := courses,
              Employee_salary := BASE_SALARY + int (length courses) * PER_COURSE_BONUS\<rparr>)"

definition remove_course :: "Employee \<Rightarrow> course_ref \<Rightarrow> Employee" where
  "remove_course self course =
     (if course \<in> set (Employee_courses self) then
        (let courses = remove1 course (Employee_courses self)
         in self\<lparr>Employee_courses := courses,
                 Employee_salary := BASE_SALARY + int (length courses) * PER_COURSE_BONUS\<rparr>)
      else self)"

section \<open>Relationship operations\<close>

text \<open>
  Each operation reads its stores, runs a loop over the records in memory and writes at
  most once. The loop is modelled on the lists of records; what it does is an
  \<open>effect\<close>: what it prints before the write, the records it hands to
  \<^verbatim>\<open>write_record\<close> (if it gets there), what it prints after, and the exception that
  ends it, if any.
\<close>

record effect =
  said_before :: "msg list"
  written :: "json list option"
  said_after :: "msg list"
  raised :: "error option"

definition say :: "msg list \<Rightarrow> effect" where
  "say ms = \<lparr>said_before = ms, written = None, said_after = [], raised = None\<rparr>"

definition fail :: "msg list \<Rightarrow> error \<Rightarrow> effect" where
  "fail ms e = \<lparr>said_before = ms, written = None, said_after = [], raised = Some e\<rparr>"

text \<open>
  The loop \<^verbatim>\<open>for r in records: if r[key] == v: ...; break\<close>: the position of the first
  record whose field equals \<open>v\<close>. Reading the field of a record that comes before it can
  raise.
\<close>

fun scan :: "string \<Rightarrow> json \<Rightarrow> json list \<Rightarrow> error + nat option" where
  "scan key v [] = Inr None"
| "scan key v (r # rs) =
     (case getitem r key of
        Inl e \<Rightarrow> Inl e
      | Inr x \<Rightarrow>
         if py_eq x v then Inr (Some 0)
         else (case scan key v rs of
                 Inl e \<Rightarrow> Inl e
               | Inr None \<Rightarrow> Inr None
               | Inr (Some i) \<Rightarrow> Inr (Some (Suc i))))"

definition is_dict :: "json \<Rightarrow> bool" where
  "is_dict v = (case v of JObj d \<Rightarrow> True | _ \<Rightarrow> False)"

text \<open>\<^verbatim>\<open>xs.pop(i)\<close> for \<open>0 \<le> i < len(xs)\<close>: the list without its element \<open>i\<close>.\<close>

definition pop :: "nat \<Rightarrow> 'a list \<Rightarrow> 'a list" where
  "pop i xs = take i xs @ drop (Suc i) xs"

subsection \<open>assign_course_to_employee\<close>

text \<open>
  The assignment itself: a missing \<^verbatim>\<open>Courses\<close> field is created empty, the course is
  appended (a field that is not a list has no \<^verbatim>\<open>append\<close>), the salary is set from the
  new length.
\<close>

definition assign_in_record :: "json \<Rightarrow> json \<Rightarrow> error + json" where
  "assign_in_record employee course =
     (case employee of
        JObj d \<Rightarrow>
         (let d1 = (if map_of d ''Courses'' = None then AList.update ''Courses'' (JList []) d
                    else d)
          in case map_of d1 ''Courses'' of
               Some (JList cs) \<Rightarrow>
                (let d2 = AList.update ''Courses'' (JList (cs @ [course])) d1
                 in Inr (JObj (AList.update ''Salary''
                      (JInt (BASE_SALARY + int (length (cs @ [course])) * PER_COURSE_BONUS)) d2)))
             | _ \<Rightarrow> Inl AttributeError)
      | _ \<Rightarrow> Inl TypeError)"

definition assign_scan :: "string \<Rightarrow> int \<Rightarrow> json list \<Rightarrow> json list \<Rightarrow> effect" where
  "assign_scan mem_id crn employees courses =
     (case scan ''ID'' (JStr mem_id) employees of
        Inl e \<Rightarrow> fail [] e
      | Inr None \<Rightarrow> say [Employee_not_found]
      | Inr (Some i) \<Rightarrow>
         (case scan ''CRN'' (JInt crn) courses of
            Inl e \<Rightarrow> fail [] e
          | Inr None \<Rightarrow> say [Course_not_found]
          | Inr (Some j) \<Rightarrow>
             (case assign_in_record (employees ! i) (courses ! j) of
                Inl e \<Rightarrow> fail [] e
              | Inr employee' \<Rightarrow>
                 (case and_then (getitem (courses ! j) ''Subject'') (\<lambda>s.
                       and_then (getitem employee' ''Name'') (\<lambda>n. Inr (Course_assigned s n))) of
                    Inl e \<Rightarrow>
                     \<lparr>said_before = [], written = Some (employees[i := employee']),
                      said_after = [], raised = Some e\<rparr>
                  | Inr m \<Rightarrow>
                     \<lparr>said_before = [], written = Some (employees[i := employee']),
                      said_after = [m], raised = None\<rparr>))))"

subsection \<open>unassign_course\<close>

text \<open>
  The table of assigned courses calls \<^verbatim>\<open>course.get\<close> on every element of the field:
  it is built only for a list of dictionaries.
\<close>

fun course_table :: "json \<Rightarrow> error + json list" where
  "course_table (JList cs) = (if list_all is_dict cs then Inr cs else Inl AttributeError)"
| "course_table (JStr s) = Inl AttributeError"
| "course_table (JObj d) = Inl AttributeError"
| "course_table _ = Inl TypeError"

text \<open>
  \<open>choice\<close> is the value of \<^verbatim>\<open>int(input(...))\<close>, \<open>None\<close> when it raises  \<^verbatim>\<open>ValueError\<close>.
\<close>

definition unassign_scan :: "string \<Rightarrow> int option \<Rightarrow> json list \<Rightarrow> effect" where
  "unassign_scan mem_id choice records =
     (case scan ''ID'' (JStr mem_id) records of
        Inl e \<Rightarrow> fail [] e
      | Inr None \<Rightarrow> say [Professor_not_found]
      | Inr (Some i) \<Rightarrow>
         (case records ! i of
            JObj d \<Rightarrow>
             (case map_of d ''Courses'' of
                None \<Rightarrow> say [No_assigned_courses]
              | Some v \<Rightarrow>
                 if \<not> truthy v then say [No_assigned_courses]
                 else
                   (case course_table v of
                      Inl e \<Rightarrow> fail [] e
                    | Inr cs \<Rightarrow>
                       (case choice of
                          None \<Rightarrow> say [Invalid_input]
                        | Some n \<Rightarrow>
                           (let course_index = n - 1
                            in if 0 \<le> course_index \<and> course_index < int (length cs) then
                                 (let removed_course = cs ! nat course_index;
                                      cs' = pop (nat course_index) cs;
                                      d1 = AList.update ''Courses'' (JList cs') d;
                                      d2 = AList.update ''Salary''
                                        (JInt (BASE_SALARY + int (length cs') * PER_COURSE_BONUS)) d1
                                  in case getitem removed_course ''Subject'' of
                                       Inl e \<Rightarrow>
                                        \<lparr>said_before = [], written = Some (records[i := JObj d2]),
                                         said_after = [], raised = Some e\<rparr>
                                     | Inr s \<Rightarrow>
                                        \<lparr>said_before = [], written = Some (records[i := JObj d2]),
                                         said_after = [Course_unassigned s], raised = None\<rparr>)
                               else say [Invalid_course_number]))))
          | _ \<Rightarrow> fail [] TypeError))"

subsection \<open>register_for_course\<close>

text \<open>
  \<^verbatim>\<open>view_courses\<close> on what \<^verbatim>\<open>read_records_file\<close> returned for the course store: the
  messages of the read, then either the notice that there are no courses or the table,
  which calls \<^verbatim>\<open>record.get\<close> on every record.
\<close>

definition view_courses :: "json list \<times> msg list \<Rightarrow> msg list \<times> error option" where
  "view_courses cr =
     (if fst cr = [] then (snd cr @ [No_courses_found], None)
      else if list_all is_dict (fst cr) then (snd cr, None)
      else (snd cr, Some AttributeError))"

text \<open>
  The registration itself: the subject is appended to the student's courses, then the
  cost is added to the balance.
\<close>

definition register_in_record :: "json \<Rightarrow> json \<Rightarrow> error + json" where
  "register_in_record record course =
     (case record of
        JObj d \<Rightarrow>
         (case map_of d ''Courses'' of
            None \<Rightarrow> Inl KeyError
          | Some (JList cs) \<Rightarrow>
             and_then (getitem course ''Subject'') (\<lambda>subject.
               let d1 = AList.update ''Courses'' (JList (cs @ [subject])) d
               in and_then (getitem (JObj d1) ''Balance'') (\<lambda>balance.
                    and_then (getitem course ''Cost'') (\<lambda>cost.
                      and_then (py_add balance cost) (\<lambda>balance'.
                        Inr (JObj (AList.update ''Balance'' balance' d1))))))
          | Some _ \<Rightarrow> Inl AttributeError)
      | _ \<Rightarrow> Inl TypeError)"

text \<open>
  \<open>cr\<close> is what reading the course store gives: what \<^verbatim>\<open>read_records_file\<close> returns, or
  the exception it raises. The store is read by \<^verbatim>\<open>view_courses\<close>, outside the
  \<^verbatim>\<open>try\<close>, and once more after the CRN has been entered.
\<close>

definition register_scan ::
  "string \<Rightarrow> int option \<Rightarrow> json list \<Rightarrow> error + json list \<times> msg list \<Rightarrow> effect" where
  "register_scan mem_id choice records cr =
     (case scan ''ID'' (JStr mem_id) records of
        Inl e \<Rightarrow> fail [] e
      | Inr None \<Rightarrow> say [Student_not_found]
      | Inr (Some i) \<Rightarrow>
         (case and_then (getitem (records ! i) ''Courses'') py_len of
            Inl e \<Rightarrow> fail [] e
          | Inr n \<Rightarrow>
             if 5 \<le> n then say [Too_many_courses]
             else
               (case and_then (getitem (records ! i) ''Balance'') (\<lambda>b. py_ge b 10000) of
                  Inl e \<Rightarrow> fail [] e
                | Inr True \<Rightarrow> say [Balance_too_high]
                | Inr False \<Rightarrow>
                   (case cr of
                      Inl e \<Rightarrow> fail [] e
                    | Inr c \<Rightarrow>
                       (case view_courses c of
                          (m1, Some e) \<Rightarrow> fail m1 e
                        | (m1, None) \<Rightarrow>
                           (case choice of
                              None \<Rightarrow> say (m1 @ [Invalid_CRN])
                            | Some crn \<Rightarrow>
                               (case scan ''CRN'' (JInt crn) (fst c) of
                                  Inl e \<Rightarrow> fail (m1 @ snd c) e
                                | Inr None \<Rightarrow> say (m1 @ snd c @ [Course_not_found])
                                | Inr (Some j) \<Rightarrow>
                                   (case register_in_record (records ! i) (fst c ! j) of
                                      Inl e \<Rightarrow> fail (m1 @ snd c) e
                                    | Inr record' \<Rightarrow>
                                       \<lparr>said_before = m1 @ snd c,
                                        written = Some (records[i := record']),
                                        said_after = [Course_registered],
                                        raised = None\<rparr>))))))))"

subsection \<open>unregister_from_course\<close>

text \<open>
  The table of enrolled courses enumerates the field and formats each element: it needs
  something to iterate over. The result is the length of the field.
\<close>

fun enrolled_table :: "json \<Rightarrow> error + nat" where
  "enrolled_table (JList cs) = Inr (length cs)"
| "enrolled_table (JStr s) = Inr (length s)"
| "enrolled_table (JObj d) = Inr (length d)"
| "enrolled_table _ = Inl TypeError"

text \<open>\<^verbatim>\<open>record["Balance"] -= course["Cost"]\<close>.\<close>

definition deduct :: "dict \<Rightarrow> json \<Rightarrow> error + dict" where
  "deduct d course =
     and_then (getitem (JObj d) ''Balance'') (\<lambda>balance.
       and_then (getitem course ''Cost'') (\<lambda>cost.
         and_then (py_sub balance cost) (\<lambda>balance'.
           Inr (AList.update ''Balance'' balance' d))))"

text \<open>
  \<open>cr\<close> is what reading the course store gives. It is read inside the \<^verbatim>\<open>try\<close>, after
  the course has been removed from the list in memory: an exception of the read that is
  a \<^verbatim>\<open>ValueError\<close> is caught by the handler meant for the number entered.
\<close>

definition unregister_scan ::
  "string \<Rightarrow> int option \<Rightarrow> json list \<Rightarrow> error + json list \<times> msg list \<Rightarrow> effect" where
  "unregister_scan mem_id choice records cr =
     (case scan ''ID'' (JStr mem_id) records of
        Inl e \<Rightarrow> fail [] e
      | Inr None \<Rightarrow> say [Student_not_found]
      | Inr (Some i) \<Rightarrow>
         (case records ! i of
            JObj d \<Rightarrow>
             (case map_of d ''Courses'' of
                None \<Rightarrow> say [No_courses_to_unregister]
              | Some v \<Rightarrow>
                 if \<not> truthy v then say [No_courses_to_unregister]
                 else
                   (case enrolled_table v of
                      Inl e \<Rightarrow> fail [] e
                    | Inr len \<Rightarrow>
                       (case choice of
                          None \<Rightarrow> say [Invalid_input]
                        | Some n \<Rightarrow>
                           (let course_index = n - 1
                            in if 0 \<le> course_index \<and> course_index < int len then
                                 (case v of
                                    JList cs \<Rightarrow>
                                     (let removed_course = cs ! nat course_index;
                                          d1 = AList.update ''Courses''
                                            (JList (pop (nat course_index) cs)) d
                                      in case cr of
                                           Inl e \<Rightarrow>
                                            if is_ValueError e then say [Invalid_input]
                                            else fail [] e
                                         | Inr c \<Rightarrow>
                                            (case and_then
                                                (scan ''Subject'' removed_course (fst c))
                                                (\<lambda>found. case found of
                                                   None \<Rightarrow> Inr d1
                                                 | Some j \<Rightarrow> deduct d1 (fst c ! j)) of
                                               Inl e \<Rightarrow> fail (snd c) e
                                             | Inr d2 \<Rightarrow>
                                                \<lparr>said_before = snd c,
                                                 written = Some (records[i := JObj d2]),
                                                 said_after =
                                                   [Course_unregistered removed_course],
                                                 raised = None\<rparr>))
                                  | JStr s \<Rightarrow> fail [] AttributeError
                                  | JObj e \<Rightarrow> fail [] KeyError
                                  | _ \<Rightarrow> fail [] TypeError)
                               else say [Invalid_course_number]))))
          | _ \<Rightarrow> fail [] TypeError))"

subsection \<open>The operations on the files\<close>

record outcome =
  world_after :: world
  printed :: "msg list"
  uncaught :: "error option"

text \<open>
  Carrying an effect out: \<open>pre\<close> is what reading the stores printed before the loop.
\<close>

definition commit ::
  "(json \<Rightarrow> string) \<Rightarrow> string \<Rightarrow> world \<Rightarrow> msg list \<Rightarrow> effect \<Rightarrow> outcome" where
  "commit dumps file_name w pre eff =
     (case written eff of
        None \<Rightarrow>
         \<lparr>world_after = w, printed = pre @ said_before eff @ said_after eff,
          uncaught = raised eff\<rparr>
      | Some records \<Rightarrow>
         (let (w', m) = write_record dumps file_name records w
          in \<lparr>world_after = w', printed = pre @ said_before eff @ m @ said_after eff,
              uncaught = raised eff\<rparr>))"

text \<open>An operation that ends in an exception before it has written.\<close>

definition raising :: "world \<Rightarrow> msg list \<Rightarrow> error \<Rightarrow> outcome" where
  "raising w ms e = \<lparr>world_after = w, printed = ms, uncaught = Some e\<rparr>"

text \<open>
  \<open>crn\<close> is the value of \<^verbatim>\<open>int(input(...))\<close>; here a \<^verbatim>\<open>ValueError\<close> is not caught, and
  it is raised before any file is read. Both stores are read before the loop.
\<close>

definition assign_course_to_employee ::
  "(string \<Rightarrow> error + json) \<Rightarrow> (json \<Rightarrow> string) \<Rightarrow> string \<Rightarrow> int option \<Rightarrow> world \<Rightarrow> outcome"
  where
  "assign_course_to_employee loads dumps mem_id crn w =
     (case crn of
        None \<Rightarrow> raising w [] ValueError
      | Some k \<Rightarrow>
         (case read_records_file loads ''employees.json'' w of
            Inl e \<Rightarrow> raising w [] e
          | Inr (employees, m1) \<Rightarrow>
             (case read_records_file loads ''courses.json'' w of
                Inl e \<Rightarrow> raising w m1 e
              | Inr (courses, m2) \<Rightarrow>
                 commit dumps ''employees.json'' w (m1 @ m2)
                   (assign_scan mem_id k employees courses))))"

definition unassign_course ::
  "(string \<Rightarrow> error + json) \<Rightarrow> (json \<Rightarrow> string) \<Rightarrow> string \<Rightarrow> int option \<Rightarrow> world \<Rightarrow> outcome"
  where
  "unassign_course loads dumps mem_id choice w =
     (case read_records_file loads ''employees.json'' w of
        Inl e \<Rightarrow> raising w [] e
      | Inr (records, m) \<Rightarrow>
         commit dumps ''employees.json'' w m (unassign_scan mem_id choice records))"

definition register_for_course ::
  "(string \<Rightarrow> error + json) \<Rightarrow> (json \<Rightarrow> string) \<Rightarrow> string \<Rightarrow> int option \<Rightarrow> world \<Rightarrow> outcome"
  where
  "register_for_course loads dumps mem_id choice w =
     (case read_records_file loads ''students.json'' w of
        Inl e \<Rightarrow> raising w [] e
      | Inr (records, m) \<Rightarrow>
         commit dumps ''students.json'' w m
           (register_scan mem_id choice records (read_records_file loads ''courses.json'' w)))"

definition unregister_from_course ::
  "(string \<Rightarrow> error + json) \<Rightarrow> (json \<Rightarrow> string) \<Rightarrow> string \<Rightarrow> int option \<Rightarrow> world \<Rightarrow> outcome"
  where
  "unregister_from_course loads dumps mem_id choice w =
     (case read_records_file loads ''students.json'' w of
        Inl e \<Rightarrow> raising w [] e
      | Inr (records, m) \<Rightarrow>
         commit dumps ''students.json'' w m
           (unregister_scan mem_id choice records
              (read_records_file loads ''courses.json'' w)))"

section \<open>Sequences of operations on the employee store\<close>

text \<open>
  The employee store as the list of its records: an operation that writes replaces the
  list by what it wrote, any other leaves it. An assignment carries the course store it
  runs against.
\<close>

datatype employee_op =
    Assign string int "json list"
  | Unassign string "int option"

definition stored :: "json list \<Rightarrow> effect \<Rightarrow> json list" where
  "stored records eff = (case written eff of None \<Rightarrow> records | Some records' \<Rightarrow> records')"

fun employee_step :: "employee_op \<Rightarrow> json list \<Rightarrow> json list" where
  "employee_step (Assign mem_id crn courses) employees =
     stored employees (assign_scan mem_id crn employees courses)"
| "employee_step (Unassign mem_id choice) employees =
     stored employees (unassign_scan mem_id choice employees)"

fun run_employee_ops :: "employee_op list \<Rightarrow> json list \<Rightarrow> json list" where
  "run_employee_ops [] employees = employees"
| "run_employee_ops (op # ops) employees = run_employee_ops ops (employee_step op employees)"

text \<open>
  The salary rule as the specification words it: the record holds a sequence of courses
  and its salary is 30000 plus 5000 for each of them.
\<close>

definition salary_ok :: "json \<Rightarrow> bool" where
  "salary_ok r =
     (case r of
        JObj d \<Rightarrow>
         (case map_of d ''Courses'' of
            Some (JList cs) \<Rightarrow> map_of d ''Salary'' = Some (JInt (30000 + 5000 * int (length cs)))
          | _ \<Rightarrow> False)
      | _ \<Rightarrow> False)"

text \<open>
  A record's field, not raising. \<open>found_first key v records i\<close>: record \<open>i\<close> is the first
  whose field \<open>key\<close> equals \<open>v\<close>, and every record before it has the field;
  \<open>not_found\<close>: every record has the field and none equals \<open>v\<close>.
\<close>

definition field :: "json \<Rightarrow> string \<Rightarrow> json option" where
  "field r k = (case r of JObj d \<Rightarrow> map_of d k | _ \<Rightarrow> None)"

definition matches :: "string \<Rightarrow> json \<Rightarrow> json \<Rightarrow> bool" where
  "matches key v r = (case field r key of None \<Rightarrow> False | Some x \<Rightarrow> py_eq x v)"

definition not_found :: "string \<Rightarrow> json \<Rightarrow> json list \<Rightarrow> bool" where
  "not_found key v records = list_all (\<lambda>r. field r key \<noteq> None \<and> \<not> matches key v r) records"

definition found_first :: "string \<Rightarrow> json \<Rightarrow> json list \<Rightarrow> nat \<Rightarrow> bool" where
  "found_first key v records i =
     (i < length records \<and> matches key v (records ! i) \<and> not_found key v (take i records))"

text \<open>The fields of a record other than the named ones, in their order.\<close>

definition others :: "string list \<Rightarrow> json \<Rightarrow> dict option" where
  "others keys r =
     (case r of JObj d \<Rightarrow> Some (filter (\<lambda>kv. fst kv \<notin> set keys) d) | _ \<Rightarrow> None)"

text \<open>
  \<open>touches_only keys mem_id records records'\<close>: the two stores differ at most in the first
  record whose \<^verbatim>\<open>ID\<close> is \<open>mem_id\<close>, and there at most in the fields \<open>keys\<close>.
\<close>

definition touches_only :: "string list \<Rightarrow> string \<Rightarrow> json list \<Rightarrow> json list \<Rightarrow> bool" where
  "touches_only keys mem_id records records' =
     (\<exists>i < length records.
        found_first ''ID'' (JStr mem_id) records i \<and>
        records' = records[i := records' ! i] \<and>
        others keys (records ! i) \<noteq> None \<and>
        others keys (records' ! i) = others keys (records ! i))"

section \<open>Example data\<close>

text \<open>
  Records as \<^verbatim>\<open>add_course\<close>, \<^verbatim>\<open>add_employee\<close> and \<^verbatim>\<open>add_student\<close> store them, each with
  the line that \<^verbatim>\<open>json.dumps\<close> writes for it.
\<close>

definition course_math :: json where
  "course_math =
     JObj [(''Subject'', JStr ''Math101''), (''CRN'', JInt 1001), (''Start Date'',
     JStr ''2024-01-01T00:00:00''), (''End Date'', JStr ''2024-05-01T00:00:00''),
     (''Start Time'', JStr ''09:00''), (''End Time'', JStr ''10:00''), (''Cost'',
     JFloat 500)]"

definition course_math_line :: string where
  \<open>course_math_line =
     ''{"Subject": "Math101", "CRN": 1001, "Start Date": "2024-01-01T00:00:00",'' @
     '' "End Date": "2024-05-01T00:00:00", "Start Time": "09:00", "End Time": "'' @
     ''10:00", "Cost": 500.0}''\<close>

definition employee_ada :: json where
  "employee_ada =
     JObj [(''Name'', JStr ''Ada''), (''ID'', JStr ''MEM1001''), (''DOB'',
     JStr ''1980-05-06T00:00:00''), (''Address'', JObj [(''city'', JStr ''Riyadh''),
     (''country'', JStr ''SA''), (''zip_code'', JStr ''11564'')]), (''Department'',
     JStr ''Mathematics''), (''Courses'', JList []), (''Salary'', JInt 30000)]"

definition employee_ada_line :: string where
  \<open>employee_ada_line =
     ''{"Name": "Ada", "ID": "MEM1001", "DOB": "1980-05-06T00:00:00", "Address"'' @
     '': {"city": "Riyadh", "country": "SA", "zip_code": "11564"}, "Department"'' @
     '': "Mathematics", "Courses": [], "Salary": 30000}''\<close>

definition student_sara :: json where
  "student_sara =
     JObj [(''Name'', JStr ''Sara''), (''ID'', JStr ''MEM1002''), (''DOB'',
     JStr ''2001-02-03T00:00:00''), (''Address'', JObj [(''city'', JStr ''Jeddah''),
     (''country'', JStr ''SA''), (''zip_code'', JStr ''21442'')]), (''Courses'',
     JList [JStr ''Math101'', JStr ''Art205'']), (''Balance'', JFloat 9999)]"

definition student_sara_line :: string where
  \<open>student_sara_line =
     ''{"Name": "Sara", "ID": "MEM1002", "DOB": "2001-02-03T00:00:00", "Address'' @
     ''": {"city": "Jeddah", "country": "SA", "zip_code": "21442"}, "Courses": '' @
     ''["Math101", "Art205"], "Balance": 9999.0}''\<close>

definition student_sara_registered :: json where
  "student_sara_registered =
     JObj [(''Name'', JStr ''Sara''), (''ID'', JStr ''MEM1002''), (''DOB'',
     JStr ''2001-02-03T00:00:00''), (''Address'', JObj [(''city'', JStr ''Jeddah''),
     (''country'', JStr ''SA''), (''zip_code'', JStr ''21442'')]), (''Courses'',
     JList [JStr ''Math101'', JStr ''Art205'', JStr ''Math101'']), (''Balance'',
     JFloat 10499)]"

definition student_sara_registered_line :: string where
  \<open>student_sara_registered_line =
     ''{"Name": "Sara", "ID": "MEM1002", "DOB": "2001-02-03T00:00:00", "Address'' @
     ''": {"city": "Jeddah", "country": "SA", "zip_code": "21442"}, "Courses": '' @
     ''["Math101", "Art205", "Math101"], "Balance": 10499.0}''\<close>

definition student_omar :: json where
  "student_omar =
     JObj [(''Name'', JStr ''Omar''), (''ID'', JStr ''MEM1003''), (''DOB'',
     JStr ''2000-11-12T00:00:00''), (''Address'', JObj [(''city'', JStr ''Dammam''),
     (''country'', JStr ''SA''), (''zip_code'', JStr ''31411'')]), (''Courses'', JList []),
     (''Balance'', JFloat 10000)]"

definition student_omar_line :: string where
  \<open>student_omar_line =
     ''{"Name": "Omar", "ID": "MEM1003", "DOB": "2000-11-12T00:00:00", "Address'' @
     ''": {"city": "Dammam", "country": "SA", "zip_code": "31411"}, "Courses": '' @
     ''[], "Balance": 10000.0}''\<close>

definition student_lina :: json where
  "student_lina =
     JObj [(''Name'', JStr ''Lina''), (''ID'', JStr ''MEM1004''), (''DOB'',
     JStr ''2002-07-08T00:00:00''), (''Address'', JObj [(''city'', JStr ''Riyadh''),
     (''country'', JStr ''SA''), (''zip_code'', JStr ''11564'')]), (''Courses'',
     JList [JStr ''Bio110'', JStr ''Chem120'', JStr ''Phys130'', JStr ''Hist140'',
     JStr ''Arab150'']), (''Balance'', JFloat 2500)]"

definition student_lina_line :: string where
  \<open>student_lina_line =
     ''{"Name": "Lina", "ID": "MEM1004", "DOB": "2002-07-08T00:00:00", "Address'' @
     ''": {"city": "Riyadh", "country": "SA", "zip_code": "11564"}, "Courses": '' @
     ''["Bio110", "Chem120", "Phys130", "Hist140", "Arab150"], "Balance": 2500.'' @
     ''0}''\<close>

text \<open>An employee record without the field \<^verbatim>\<open>Courses\<close>.\<close>

definition employee_noor :: json where
  "employee_noor =
     JObj [(''Name'', JStr ''Noor''), (''ID'', JStr ''MEM1005''), (''DOB'',
     JStr ''1975-03-04T00:00:00''), (''Address'', JObj [(''city'', JStr ''Abha''),
     (''country'', JStr ''SA''), (''zip_code'', JStr ''61321'')]), (''Department'',
     JStr ''Physics''), (''Salary'', JInt 30000)]"

definition employee_noor_line :: string where
  \<open>employee_noor_line =
     ''{"Name": "Noor", "ID": "MEM1005", "DOB": "1975-03-04T00:00:00", "Address'' @
     ''": {"city": "Abha", "country": "SA", "zip_code": "61321"}, "Department":'' @
     '' "Physics", "Salary": 30000}''\<close>

text \<open>The two library functions on these records and lines, and a file system.\<close>

definition example_table :: "(string \<times> json) list" where
  "example_table =
            [(course_math_line @ [LF], course_math),
             (employee_ada_line @ [LF], employee_ada),
             (student_sara_line @ [LF], student_sara),
             (student_sara_registered_line @ [LF], student_sara_registered),
             (student_omar_line @ [LF], student_omar),
             (student_lina_line @ [LF], student_lina),
             (employee_noor_line @ [LF], employee_noor)]"

definition example_loads :: "string \<Rightarrow> error + json" where
  "example_loads line =
     (case map_of example_table line of None \<Rightarrow> Inl JSONDecodeError | Some v \<Rightarrow> Inr v)"

definition example_dumps :: "json \<Rightarrow> string" where
  "example_dumps r =
     (if r = course_math then course_math_line
      else if r = employee_ada then employee_ada_line
      else if r = student_sara then student_sara_line
      else if r = student_sara_registered then student_sara_registered_line
      else if r = student_omar then student_omar_line
      else if r = student_lina then student_lina_line
      else if r = employee_noor then employee_noor_line
      else [])"

definition campus :: world where
  "campus =
     \<lparr>files = [''courses.json'' \<mapsto> Text (course_math_line @ [LF]),
               ''employees.json'' \<mapsto> Text (employee_ada_line @ [LF]),
               ''students.json'' \<mapsto>
                 Text (student_sara_line @ [LF] @ student_omar_line @ [LF] @
                       student_lina_line @ [LF])],
      unwritable = {}\<rparr>"

text \<open>The same file system with the employee store holding that record only.\<close>

definition campus_legacy :: world where
  "campus_legacy =
     campus\<lparr>files := (files campus)(''employees.json'' \<mapsto> Text (employee_noor_line @ [LF]))\<rparr>"

text \<open>
  The same file system with a course store of one byte that is not UTF-8, such as the
  byte \<^verbatim>\<open>0xFF\<close>.
\<close>

definition campus_corrupt :: world where
  "campus_corrupt = campus\<lparr>files := (files campus)(''courses.json'' \<mapsto> Undecodable [])\<rparr>"

section \<open>Reading back what was written\<close>

lemma universal_newlines_id: "CR \<notin> set s \<Longrightarrow> universal_newlines s = s"
  by (induction s rule: universal_newlines.induct) auto

lemma file_lines_line:
  "LF \<notin> set l \<Longrightarrow> file_lines (l @ LF # rest) = (l @ [LF]) # file_lines rest"
  by (induction l) auto

lemma file_lines_concat:
  "\<forall>l \<in> set ls. LF \<notin> set l \<Longrightarrow>
   file_lines (concat (map (\<lambda>l. l @ [LF]) ls)) = map (\<lambda>l. l @ [LF]) ls"
  by (induction ls) (auto simp: file_lines_line)

lemma parse_lines_all:
  "\<forall>l \<in> set ls. loads l = Inr (g l) \<Longrightarrow> parse_lines loads ls = Inr (map g ls)"
  by (induction ls) auto

lemma parse_lines_first_error:
  "\<forall>l \<in> set ls. loads l = Inr (g l) \<Longrightarrow> loads bad = Inl e \<Longrightarrow>
   parse_lines loads (ls @ bad # rest) = Inl e"
  by (induction ls) auto

lemma read_lines:
  assumes "files w file_name = Some (Text (concat (map (\<lambda>l. l @ [LF]) ls)))"
    and "\<forall>l \<in> set ls. LF \<notin> set l \<and> CR \<notin> set l"
    and "parse_lines loads (map (\<lambda>l. l @ [LF]) ls) = Inr records"
  shows "read_records_file loads file_name w = Inr (records, [])"
proof -
  let ?text = "concat (map (\<lambda>l. l @ [LF]) ls)"
  have "CR \<notin> set ?text"
    using assms(2) by auto
  then have "universal_newlines ?text = ?text"
    by (rule universal_newlines_id)
  moreover have "file_lines ?text = map (\<lambda>l. l @ [LF]) ls"
    using assms(2) by (intro file_lines_concat) auto
  ultimately show ?thesis
    using assms(1,3) by (simp add: read_records_file_def load_all_def)
qed

subsection \<open>The example files\<close>

lemma line_chars:
  "LF \<notin> set course_math_line \<and> CR \<notin> set course_math_line"
  "LF \<notin> set employee_ada_line \<and> CR \<notin> set employee_ada_line"
  "LF \<notin> set student_sara_line \<and> CR \<notin> set student_sara_line"
  "LF \<notin> set student_omar_line \<and> CR \<notin> set student_omar_line"
  "LF \<notin> set student_lina_line \<and> CR \<notin> set student_lina_line"
  "LF \<notin> set student_sara_registered_line \<and> CR \<notin> set student_sara_registered_line"
  "LF \<notin> set employee_noor_line \<and> CR \<notin> set employee_noor_line"
  by (simp_all add: course_math_line_def employee_ada_line_def student_sara_line_def
      student_omar_line_def student_lina_line_def student_sara_registered_line_def
      employee_noor_line_def)

lemma example_loads_lines:
  "example_loads (course_math_line @ [LF]) = Inr course_math"
  "example_loads (employee_ada_line @ [LF]) = Inr employee_ada"
  "example_loads (student_sara_line @ [LF]) = Inr student_sara"
  "example_loads (student_omar_line @ [LF]) = Inr student_omar"
  "example_loads (student_lina_line @ [LF]) = Inr student_lina"
  "example_loads (student_sara_registered_line @ [LF]) = Inr student_sara_registered"
  "example_loads (employee_noor_line @ [LF]) = Inr employee_noor"
  by (simp_all add: example_loads_def example_table_def course_math_line_def
      employee_ada_line_def student_sara_line_def student_sara_registered_line_def
      student_omar_line_def student_lina_line_def employee_noor_line_def)

lemma read_students:
  "read_records_file example_loads ''students.json'' campus =
   Inr ([student_sara, student_omar, student_lina], [])"
  by (rule read_lines [where ls = "[student_sara_line, student_omar_line, student_lina_line]"])
     (simp_all add: campus_def line_chars example_loads_lines)

lemma read_courses:
  "read_records_file example_loads ''courses.json'' campus = Inr ([course_math], [])"
  by (rule read_lines [where ls = "[course_math_line]"])
     (simp_all add: campus_def line_chars example_loads_lines)

lemma read_employees:
  "read_records_file example_loads ''employees.json'' campus =
   Inr ([employee_ada], [])"
  by (rule read_lines [where ls = "[employee_ada_line]"])
     (simp_all add: campus_def line_chars example_loads_lines)

lemma campus_students:
  "found_first ''ID'' (JStr ''MEM1002'') [student_sara, student_omar, student_lina] 0"
  "found_first ''ID'' (JStr ''MEM1003'') [student_sara, student_omar, student_lina] 1"
  "found_first ''ID'' (JStr ''MEM1004'') [student_sara, student_omar, student_lina] 2"
  by (simp_all add: found_first_def matches_def not_found_def field_def
      student_sara_def student_omar_def student_lina_def)


section \<open>Lemmas about the operations\<close>

lemma py_eq_JStr: "py_eq x (JStr s) = (x = JStr s)"
  by (cases x) (auto split: json.splits)

lemma getitem_field: "getitem r k = Inr x \<longleftrightarrow> field r k = Some x"
  by (cases r) (auto simp: field_def split: option.splits)

lemma getitem_Inl: "(\<exists>e. getitem r k = Inl e) \<longleftrightarrow> field r k = None"
  by (cases r) (auto simp: field_def split: option.splits)

lemma and_then_Inr: "and_then r f = Inr y \<longleftrightarrow> (\<exists>x. r = Inr x \<and> f x = Inr y)"
  by (cases r) (auto simp: and_then_def)

lemma scan_found: "scan key v rs = Inr (Some i) \<longleftrightarrow> found_first key v rs i"
proof (induction rs arbitrary: i)
  case Nil
  show ?case by (simp add: found_first_def)
next
  case (Cons r rs)
  show ?case
  proof (cases "getitem r key")
    case (Inl e)
    then have "field r key = None"
      using getitem_Inl by blast
    with Inl show ?thesis
      by (cases i) (auto simp: found_first_def matches_def not_found_def)
  next
    case (Inr x)
    then have f: "field r key = Some x"
      by (simp add: getitem_field)
    show ?thesis
    proof (cases "py_eq x v")
      case True
      with Inr f show ?thesis
        by (cases i) (auto simp: found_first_def matches_def not_found_def)
    next
      case False
      with Inr f Cons [symmetric] show ?thesis
        by (cases i)
           (auto simp: found_first_def matches_def not_found_def split: sum.splits option.splits)
    qed
  qed
qed

lemma scan_not_found: "scan key v rs = Inr None \<longleftrightarrow> not_found key v rs"
proof (induction rs)
  case Nil
  show ?case by (simp add: not_found_def)
next
  case (Cons r rs)
  show ?case
  proof (cases "getitem r key")
    case (Inl e)
    then have "field r key = None"
      using getitem_Inl by blast
    with Inl show ?thesis
      by (auto simp: not_found_def)
  next
    case (Inr x)
    then have f: "field r key = Some x"
      by (simp add: getitem_field)
    with Inr Cons [symmetric] show ?thesis
      by (auto simp: matches_def not_found_def split: sum.splits option.splits)
  qed
qed

lemma others_update:
  "k \<in> set keys \<Longrightarrow> others keys (JObj (AList.update k v d)) = others keys (JObj d)"
  unfolding others_def by (induction d) auto

lemma field_update:
  "field (JObj (AList.update k v d)) k' = (if k' = k then Some v else field (JObj d) k')"
  by (simp add: field_def update_conv')

lemma world_after_commit:
  "world_after (commit dumps file_name w pre eff) =
   (case written eff of None \<Rightarrow> w | Some records \<Rightarrow> fst (write_record dumps file_name records w))"
  by (simp add: commit_def split: option.splits prod.splits)

lemma uncaught_commit: "uncaught (commit dumps file_name w pre eff) = raised eff"
  by (simp add: commit_def split: option.splits prod.splits)

lemma printed_commit_unwritten:
  "written eff = None \<Longrightarrow>
   printed (commit dumps file_name w pre eff) = pre @ said_before eff @ said_after eff"
  by (simp add: commit_def)

lemma printed_commit_written:
  "written eff = Some records \<Longrightarrow> file_name \<notin> unwritable w \<Longrightarrow>
   printed (commit dumps file_name w pre eff) = pre @ said_before eff @ said_after eff"
  by (simp add: commit_def write_record_def)

lemma assign_in_record_JObj:
  "assign_in_record (JObj d) course =
     (case map_of d ''Courses'' of
        None \<Rightarrow>
         Inr (JObj (AList.update ''Salary'' (JInt 35000)
           (AList.update ''Courses'' (JList [course]) d)))
      | Some (JList cs) \<Rightarrow>
         Inr (JObj (AList.update ''Salary'' (JInt (30000 + 5000 * int (length (cs @ [course]))))
           (AList.update ''Courses'' (JList (cs @ [course])) d)))
      | Some _ \<Rightarrow> Inl AttributeError)"
  by (simp add: assign_in_record_def Let_def update_conv' BASE_SALARY_def PER_COURSE_BONUS_def
      mult.commute split: json.splits option.splits)

lemma assign_in_record_salary_ok:
  assumes "assign_in_record employee course = Inr employee'"
  shows "salary_ok employee'"
proof (cases employee)
  case (JObj d)
  with assms show ?thesis
    by (auto simp: assign_in_record_JObj salary_ok_def update_conv'
        split: option.splits json.splits)
qed (use assms in \<open>simp_all add: assign_in_record_def\<close>)

lemma assign_in_record_others:
  assumes "assign_in_record employee course = Inr employee'"
  shows "others [''Courses'', ''Salary''] employee' = others [''Courses'', ''Salary''] employee \<and>
         others [''Courses'', ''Salary''] employee \<noteq> None"
proof (cases employee)
  case (JObj d)
  then have "others [''Courses'', ''Salary''] employee \<noteq> None"
    by (simp add: others_def)
  with assms JObj show ?thesis
    by (auto simp: assign_in_record_JObj others_update split: option.splits json.splits)
qed (use assms in \<open>simp_all add: assign_in_record_def\<close>)

lemma assign_scan_written:
  assumes "written (assign_scan mem_id crn employees courses) = Some employees'"
  obtains i j employee' where "found_first ''ID'' (JStr mem_id) employees i"
    and "found_first ''CRN'' (JInt crn) courses j"
    and "assign_in_record (employees ! i) (courses ! j) = Inr employee'"
    and "employees' = employees[i := employee']"
  using assms
  by (auto simp: assign_scan_def say_def fail_def scan_found
      split: sum.splits option.splits)

lemma course_table_Inr:
  "course_table v = Inr cs \<longleftrightarrow> v = JList cs \<and> list_all is_dict cs"
  by (cases v) auto

lemma length_pop: "i < length xs \<Longrightarrow> length (pop i xs) = length xs - 1"
  by (simp add: pop_def)

lemma unassign_scan_written:
  assumes "written (unassign_scan mem_id choice records) = Some records'"
  obtains i d cs n where "found_first ''ID'' (JStr mem_id) records i"
    and "records ! i = JObj d" and "map_of d ''Courses'' = Some (JList cs)"
    and "list_all is_dict cs" and "choice = Some n" and "1 \<le> n" and "n \<le> int (length cs)"
    and "records' = records[i := JObj (AList.update ''Salary''
           (JInt (BASE_SALARY + int (length (pop (nat (n - 1)) cs)) * PER_COURSE_BONUS))
           (AList.update ''Courses'' (JList (pop (nat (n - 1)) cs)) d))]"
  using assms
  by (auto simp: unassign_scan_def say_def fail_def scan_found course_table_Inr Let_def
      split: sum.splits option.splits json.splits if_splits)

lemma unassign_scan_salary_ok:
  assumes "written (unassign_scan mem_id choice records) = Some records'"
  obtains i r' where "found_first ''ID'' (JStr mem_id) records i"
    and "records' = records[i := r']" and "salary_ok r'"
    and "others [''Courses'', ''Salary''] r' = others [''Courses'', ''Salary''] (records ! i)"
    and "others [''Courses'', ''Salary''] (records ! i) \<noteq> None"
proof -
  from assms obtain i d cs n where *: "found_first ''ID'' (JStr mem_id) records i"
    "records ! i = JObj d"
    "records' = records[i := JObj (AList.update ''Salary''
           (JInt (BASE_SALARY + int (length (pop (nat (n - 1)) cs)) * PER_COURSE_BONUS))
           (AList.update ''Courses'' (JList (pop (nat (n - 1)) cs)) d))]"
    by (rule unassign_scan_written)
  show thesis
  proof (rule that [OF *(1) *(3)])
    show "salary_ok (JObj (AList.update ''Salary''
           (JInt (BASE_SALARY + int (length (pop (nat (n - 1)) cs)) * PER_COURSE_BONUS))
           (AList.update ''Courses'' (JList (pop (nat (n - 1)) cs)) d)))"
      by (simp add: salary_ok_def update_conv' BASE_SALARY_def PER_COURSE_BONUS_def mult.commute)
    show "others [''Courses'', ''Salary''] (JObj (AList.update ''Salary''
           (JInt (BASE_SALARY + int (length (pop (nat (n - 1)) cs)) * PER_COURSE_BONUS))
           (AList.update ''Courses'' (JList (pop (nat (n - 1)) cs)) d))) =
          others [''Courses'', ''Salary''] (records ! i)"
      by (simp add: others_update *(2))
    show "others [''Courses'', ''Salary''] (records ! i) \<noteq> None"
      by (simp add: others_def *(2))
  qed
qed

lemma found_first_length: "found_first key v records i \<Longrightarrow> i < length records"
  by (simp add: found_first_def)

lemma nth_list_update_cases: "xs[i := x] ! j = xs ! j \<or> xs[i := x] ! j = x"
  by (cases "i < length xs") (auto simp: nth_list_update list_update_beyond)

lemma list_update_salary:
  "salary_ok r' \<Longrightarrow> xs[i := r'] ! k = xs ! k \<or> salary_ok (xs[i := r'] ! k)"
  using nth_list_update_cases [of xs i r' k] by auto

lemma employee_step_salary:
  "length (employee_step op employees) = length employees \<and>
   (\<forall>i < length employees.
      employee_step op employees ! i = employees ! i \<or> salary_ok (employee_step op employees ! i))"
proof (cases op)
  case (Assign mem_id crn courses)
  show ?thesis
  proof (cases "written (assign_scan mem_id crn employees courses)")
    case None
    with Assign show ?thesis by (simp add: stored_def)
  next
    case (Some employees')
    then obtain i j employee' where "i < length employees"
      "assign_in_record (employees ! i) (courses ! j) = Inr employee'"
      "employees' = employees[i := employee']"
      by (auto elim!: assign_scan_written dest: found_first_length)
    then have "salary_ok employee'"
      by (auto dest: assign_in_record_salary_ok)
    with Some Assign \<open>employees' = employees[i := employee']\<close> show ?thesis
      by (simp add: stored_def list_update_salary)
  qed
next
  case (Unassign mem_id choice)
  show ?thesis
  proof (cases "written (unassign_scan mem_id choice employees)")
    case None
    with Unassign show ?thesis by (simp add: stored_def)
  next
    case (Some employees')
    then obtain i r' where "employees' = employees[i := r']" "salary_ok r'"
      by (auto elim!: unassign_scan_salary_ok)
    with Some Unassign show ?thesis
      by (simp add: stored_def list_update_salary)
  qed
qed

lemma field_Some_JObj: "field r k = Some x \<Longrightarrow> \<exists>d. r = JObj d \<and> map_of d k = Some x"
  by (cases r) (auto simp: field_def)

lemma matches_field: "matches key v r \<Longrightarrow> \<exists>x. field r key = Some x \<and> py_eq x v"
  by (auto simp: matches_def split: option.splits)

lemma found_first_is_dict: "found_first key v records i \<Longrightarrow> is_dict (records ! i)"
  by (auto simp: found_first_def is_dict_def dest!: matches_field field_Some_JObj)

lemma found_first_update:
  assumes "found_first key v records i" and "field r' key = field (records ! i) key"
  shows "found_first key v (records[i := r']) i"
  using assms by (simp add: found_first_def matches_def)

lemma assign_scan_found:
  assumes "found_first ''ID'' (JStr mem_id) employees i"
    and "found_first ''CRN'' (JInt crn) courses j"
    and "assign_in_record (employees ! i) (courses ! j) = Inr employee'"
  shows "written (assign_scan mem_id crn employees courses) = Some (employees[i := employee'])"
  using assms
  by (simp add: assign_scan_def scan_found [symmetric] split: sum.splits)

lemma unassign_scan_found:
  assumes "found_first ''ID'' (JStr mem_id) records i"
    and "field (records ! i) ''Courses'' = Some (JList cs)"
    and "list_all is_dict cs" and "1 \<le> n" and "n \<le> int (length cs)"
  shows "written (unassign_scan mem_id (Some n) records) =
         Some (records[i := JObj (AList.update ''Salary''
           (JInt (30000 + 5000 * int (length (pop (nat (n - 1)) cs))))
           (AList.update ''Courses'' (JList (pop (nat (n - 1)) cs))
             (case records ! i of JObj d \<Rightarrow> d | _ \<Rightarrow> [])))])"
proof -
  from assms(2) obtain d where d: "records ! i = JObj d" "map_of d ''Courses'' = Some (JList cs)"
    by (auto dest: field_Some_JObj)
  from assms(4,5) have "cs \<noteq> []"
    by auto
  with assms d show ?thesis
    by (simp add: unassign_scan_def scan_found [symmetric] Let_def BASE_SALARY_def
        PER_COURSE_BONUS_def mult.commute split: sum.splits)
qed

lemma pop_0: "pop 0 xs = tl xs"
  by (simp add: pop_def drop_Suc)

lemma assign_step:
  assumes "found_first ''ID'' (JStr mem_id) employees i"
    and "field (employees ! i) ''Courses'' = Some (JList cs)"
    and "found_first ''CRN'' (JInt crn) courses j"
  obtains e' where "employee_step (Assign mem_id crn courses) employees = employees[i := e']"
    and "found_first ''ID'' (JStr mem_id) (employees[i := e']) i"
    and "field e' ''Courses'' = Some (JList (cs @ [courses ! j]))"
    and "field e' ''Salary'' = Some (JInt (30000 + 5000 * int (length (cs @ [courses ! j]))))"
proof -
  from assms(2) obtain d where d: "employees ! i = JObj d" "map_of d ''Courses'' = Some (JList cs)"
    by (auto dest: field_Some_JObj)
  let ?e = "JObj (AList.update ''Salary'' (JInt (30000 + 5000 * int (length (cs @ [courses ! j]))))
              (AList.update ''Courses'' (JList (cs @ [courses ! j])) d))"
  have a: "assign_in_record (employees ! i) (courses ! j) = Inr ?e"
    by (simp add: d assign_in_record_JObj)
  show thesis
  proof (rule that [of ?e])
    show "employee_step (Assign mem_id crn courses) employees = employees[i := ?e]"
      using assign_scan_found [OF assms(1) assms(3) a] by (simp add: stored_def)
    show "found_first ''ID'' (JStr mem_id) (employees[i := ?e]) i"
      using assms(1) by (rule found_first_update) (simp add: field_update d)
    show "field ?e ''Courses'' = Some (JList (cs @ [courses ! j]))"
      by (simp add: field_update)
    show "field ?e ''Salary'' = Some (JInt (30000 + 5000 * int (length (cs @ [courses ! j]))))"
      by (simp add: field_update)
  qed
qed

lemma unassign_step:
  assumes "found_first ''ID'' (JStr mem_id) employees i"
    and "field (employees ! i) ''Courses'' = Some (JList cs)"
    and "list_all is_dict cs" and "1 \<le> n" and "n \<le> int (length cs)"
  obtains e' where "employee_step (Unassign mem_id (Some n)) employees = employees[i := e']"
    and "found_first ''ID'' (JStr mem_id) (employees[i := e']) i"
    and "field e' ''Courses'' = Some (JList (pop (nat (n - 1)) cs))"
    and "field e' ''Salary'' = Some (JInt (30000 + 5000 * int (length (pop (nat (n - 1)) cs))))"
proof -
  from assms(2) obtain d where d: "employees ! i = JObj d"
    by (auto dest: field_Some_JObj)
  let ?e = "JObj (AList.update ''Salary''
              (JInt (30000 + 5000 * int (length (pop (nat (n - 1)) cs))))
              (AList.update ''Courses'' (JList (pop (nat (n - 1)) cs)) d))"
  show thesis
  proof (rule that [of ?e])
    show "employee_step (Unassign mem_id (Some n)) employees = employees[i := ?e]"
      using unassign_scan_found [OF assms] by (simp add: stored_def d)
    show "found_first ''ID'' (JStr mem_id) (employees[i := ?e]) i"
      using assms(1) by (rule found_first_update) (simp add: field_update d)
    show "field ?e ''Courses'' = Some (JList (pop (nat (n - 1)) cs))"
      by (simp add: field_update)
    show "field ?e ''Salary'' =
          Some (JInt (30000 + 5000 * int (length (pop (nat (n - 1)) cs))))"
      by (simp add: field_update)
  qed
qed

lemma register_scan_refused:
  assumes "found_first ''ID'' (JStr mem_id) records i"
    and "field (records ! i) ''Courses'' = Some (JList cs)"
    and "5 \<le> length cs \<or>
         (\<exists>b x. field (records ! i) ''Balance'' = Some b \<and> num_val b = Some x \<and> 10000 \<le> x)"
  shows "register_scan mem_id choice records cr =
         say [if 5 \<le> length cs then Too_many_courses else Balance_too_high]"
proof -
  have c: "getitem (records ! i) ''Courses'' = Inr (JList cs)"
    using assms(2) by (simp add: getitem_field)
  show ?thesis
  proof (cases "5 \<le> length cs")
    case True
    with assms(1) c show ?thesis
      by (simp add: register_scan_def scan_found [symmetric] and_then_def)
  next
    case False
    with assms(3) obtain b x where "getitem (records ! i) ''Balance'' = Inr b"
      "num_val b = Some x" "10000 \<le> x"
      by (auto simp: getitem_field)
    with False assms(1) c show ?thesis
      by (simp add: register_scan_def scan_found [symmetric] and_then_def py_ge_def)
  qed
qed

lemma example_dumps_records:
  "example_dumps student_sara_registered = student_sara_registered_line"
  "example_dumps student_omar = student_omar_line"
  "example_dumps student_lina = student_lina_line"
  by (simp_all add: example_dumps_def course_math_def employee_ada_def student_sara_def
      student_sara_registered_def student_omar_def student_lina_def)

lemma view_courses_dicts:
  "cs \<noteq> [] \<Longrightarrow> list_all is_dict cs \<Longrightarrow> view_courses (cs, ms) = (ms, None)"
  by (simp add: view_courses_def)

lemma register_scan_accepted:
  assumes "found_first ''ID'' (JStr mem_id) records i"
    and "field (records ! i) ''Courses'' = Some (JList cs)" and "length cs < 5"
    and "field (records ! i) ''Balance'' = Some b" and "num_val b = Some x" and "x < 10000"
    and "list_all is_dict courses"
    and "found_first ''CRN'' (JInt crn) courses j"
    and "register_in_record (records ! i) (courses ! j) = Inr record'"
  shows "register_scan mem_id (Some crn) records (Inr (courses, cms)) =
         \<lparr>said_before = cms @ cms, written = Some (records[i := record']),
          said_after = [Course_registered], raised = None\<rparr>"
proof -
  have "courses \<noteq> []"
    using assms(8) by (auto simp: found_first_def)
  then have "view_courses (courses, cms) = (cms, None)"
    using assms(7) by (rule view_courses_dicts)
  moreover have "getitem (records ! i) ''Courses'' = Inr (JList cs)"
    "getitem (records ! i) ''Balance'' = Inr b"
    using assms(2,4) by (simp_all add: getitem_field)
  ultimately show ?thesis
    using assms(1,3,5,6,8,9)
    by (simp add: register_scan_def scan_found [symmetric] and_then_def py_ge_def)
qed

lemma register_sara:
  "register_scan ''MEM1002'' (Some 1001) [student_sara, student_omar, student_lina]
     (Inr ([course_math], [])) =
   \<lparr>said_before = [], written = Some [student_sara_registered, student_omar, student_lina],
    said_after = [Course_registered], raised = None\<rparr>"
proof -
  have "register_in_record ([student_sara, student_omar, student_lina] ! 0) ([course_math] ! 0) =
      Inr student_sara_registered"
    by (simp add: register_in_record_def student_sara_def course_math_def and_then_def
        py_add_def student_sara_registered_def)
  moreover have "field ([student_sara, student_omar, student_lina] ! 0) ''Courses'' =
      Some (JList [JStr ''Math101'', JStr ''Art205''])"
    "field ([student_sara, student_omar, student_lina] ! 0) ''Balance'' = Some (JFloat 9999)"
    by (simp_all add: field_def student_sara_def)
  moreover have "found_first ''CRN'' (JInt 1001) [course_math] 0"
    by (simp add: found_first_def matches_def not_found_def field_def course_math_def)
  moreover have "list_all is_dict [course_math]"
    by (simp add: is_dict_def course_math_def)
  ultimately show ?thesis
    using register_scan_accepted [OF campus_students(1), of _ _ 9999 "[course_math]" 1001 0 _ "[]"]
    by simp
qed

lemma campus_writable: "unwritable campus = {}"
  by (simp add: campus_def)

lemma register_sara_outcome:
  "register_for_course example_loads example_dumps ''MEM1002'' (Some 1001) campus =
   \<lparr>world_after = fst (write_record example_dumps ''students.json''
        [student_sara_registered, student_omar, student_lina] campus),
    printed = [Course_registered], uncaught = None\<rparr>"
  by (simp add: register_for_course_def read_students read_courses register_sara commit_def
      write_record_def campus_writable)

lemma read_students_registered:
  "read_records_file example_loads ''students.json''
     (fst (write_record example_dumps ''students.json''
        [student_sara_registered, student_omar, student_lina] campus)) =
   Inr ([student_sara_registered, student_omar, student_lina], [])"
  by (rule read_lines
        [where ls = "[student_sara_registered_line, student_omar_line, student_lina_line]"])
     (simp_all add: write_record_def campus_writable example_dumps_records line_chars
        example_loads_lines)

lemma read_legacy:
  "read_records_file example_loads ''employees.json'' campus_legacy = Inr ([employee_noor], [])"
  "read_records_file example_loads ''courses.json'' campus_legacy = Inr ([course_math], [])"
proof -
  show "read_records_file example_loads ''employees.json'' campus_legacy =
      Inr ([employee_noor], [])"
    by (rule read_lines [where ls = "[employee_noor_line]"])
       (simp_all add: campus_legacy_def line_chars example_loads_lines)
  have "files campus_legacy ''courses.json'' = files campus ''courses.json''"
    by (simp add: campus_legacy_def)
  then show "read_records_file example_loads ''courses.json'' campus_legacy =
      Inr ([course_math], [])"
    using read_courses by (simp add: read_records_file_def)
qed

lemma assign_scan_outcome:
  assumes "found_first ''ID'' (JStr mem_id) employees i"
    and "found_first ''CRN'' (JInt crn) courses j"
    and "assign_in_record (employees ! i) (courses ! j) = Inr employee'"
  shows "said_before (assign_scan mem_id crn employees courses) = []"
    and "raised (assign_scan mem_id crn employees courses) =
         (case and_then (getitem (courses ! j) ''Subject'') (\<lambda>s.
                 and_then (getitem employee' ''Name'') (\<lambda>n. Inr (Course_assigned s n))) of
            Inl e \<Rightarrow> Some e | Inr m \<Rightarrow> None)"
    and "said_after (assign_scan mem_id crn employees courses) =
         (case and_then (getitem (courses ! j) ''Subject'') (\<lambda>s.
                 and_then (getitem employee' ''Name'') (\<lambda>n. Inr (Course_assigned s n))) of
            Inl e \<Rightarrow> [] | Inr m \<Rightarrow> [m])"
  using assms
  by (simp_all add: assign_scan_def scan_found [symmetric] split: sum.splits)

lemma touches_onlyI:
  assumes "found_first ''ID'' (JStr mem_id) records i"
    and "others keys r' = others keys (records ! i)"
    and "others keys (records ! i) \<noteq> None"
  shows "touches_only keys mem_id records (records[i := r'])"
proof -
  have "i < length records"
    using assms(1) by (rule found_first_length)
  with assms show ?thesis
    unfolding touches_only_def by (intro exI [of _ i]) simp
qed

lemma assign_scan_touches:
  assumes "written (assign_scan mem_id crn employees courses) = Some employees'"
  shows "touches_only [''Courses'', ''Salary''] mem_id employees employees'"
proof -
  from assms obtain i j employee' where "found_first ''ID'' (JStr mem_id) employees i"
    and "assign_in_record (employees ! i) (courses ! j) = Inr employee'"
    and "employees' = employees[i := employee']"
    by (rule assign_scan_written)
  then show ?thesis
    using assign_in_record_others [of "employees ! i" "courses ! j" employee']
    by (simp add: touches_onlyI)
qed

lemma unassign_scan_touches:
  assumes "written (unassign_scan mem_id choice records) = Some records'"
  shows "touches_only [''Courses'', ''Salary''] mem_id records records'"
  using assms by (rule unassign_scan_salary_ok) (simp add: touches_onlyI)

lemma register_in_record_Inr:
  assumes "register_in_record r course = Inr r'"
  obtains d cs subject balance cost balance' where "r = JObj d"
    and "map_of d ''Courses'' = Some (JList cs)" and "field course ''Subject'' = Some subject"
    and "map_of d ''Balance'' = Some balance" and "field course ''Cost'' = Some cost"
    and "py_add balance cost = Inr balance'"
    and "r' = JObj (AList.update ''Balance'' balance'
           (AList.update ''Courses'' (JList (cs @ [subject])) d))"
proof (cases r)
  case (JObj d)
  with assms that show ?thesis
    by (auto simp: register_in_record_def and_then_Inr Let_def update_conv'
        getitem_field [symmetric] split: option.splits json.splits)
qed (use assms in \<open>simp_all add: register_in_record_def\<close>)

lemma register_in_record_others:
  assumes "register_in_record r course = Inr r'"
  shows "others [''Courses'', ''Balance''] r' = others [''Courses'', ''Balance''] r \<and>
         others [''Courses'', ''Balance''] r \<noteq> None"
  using assms
  by (rule register_in_record_Inr) (simp add: others_update, simp add: others_def)

lemma register_scan_written:
  assumes "written (register_scan mem_id choice records cr) = Some records'"
  obtains i j crn record' c where "found_first ''ID'' (JStr mem_id) records i"
    and "cr = Inr c"
    and "choice = Some crn" and "found_first ''CRN'' (JInt crn) (fst c) j"
    and "register_in_record (records ! i) (fst c ! j) = Inr record'"
    and "records' = records[i := record']"
  using assms
  by (auto simp: register_scan_def say_def fail_def scan_found
      split: sum.splits option.splits if_splits bool.splits prod.splits)

lemma register_scan_touches:
  assumes "written (register_scan mem_id choice records cr) = Some records'"
  shows "touches_only [''Courses'', ''Balance''] mem_id records records'"
proof -
  from assms obtain i j record' and c :: "json list \<times> msg list"
    where "found_first ''ID'' (JStr mem_id) records i"
    and "register_in_record (records ! i) (fst c ! j) = Inr record'"
    and "records' = records[i := record']"
    by (rule register_scan_written) blast
  then show ?thesis
    using register_in_record_others [of "records ! i" "fst c ! j" record']
    by (simp add: touches_onlyI)
qed

lemma deduct_others:
  "deduct d course = Inr d' \<Longrightarrow>
   others [''Courses'', ''Balance''] (JObj d') = others [''Courses'', ''Balance''] (JObj d)"
  by (auto simp: deduct_def and_then_Inr others_update)

lemma unregister_scan_written:
  assumes "written (unregister_scan mem_id choice records cr) = Some records'"
  obtains i d cs n d2 c where "found_first ''ID'' (JStr mem_id) records i"
    and "records ! i = JObj d" and "map_of d ''Courses'' = Some (JList cs)"
    and "choice = Some n" and "1 \<le> n" and "n \<le> int (length cs)" and "cr = Inr c"
    and "and_then (scan ''Subject'' (cs ! nat (n - 1)) (fst c))
           (\<lambda>found. case found of
              None \<Rightarrow> Inr (AList.update ''Courses'' (JList (pop (nat (n - 1)) cs)) d)
            | Some j \<Rightarrow> deduct (AList.update ''Courses'' (JList (pop (nat (n - 1)) cs)) d)
                         (fst c ! j)) = Inr d2"
    and "records' = records[i := JObj d2]"
  using assms
  by (auto simp: unregister_scan_def say_def fail_def scan_found Let_def
      split: sum.splits option.splits json.splits if_splits)

lemma unregister_scan_touches:
  assumes "written (unregister_scan mem_id choice records cr) = Some records'"
  shows "touches_only [''Courses'', ''Balance''] mem_id records records'"
proof -
  from assms obtain i d cs n d2 and c :: "json list \<times> msg list"
    where f: "found_first ''ID'' (JStr mem_id) records i"
    and d: "records ! i = JObj d"
    and step: "and_then (scan ''Subject'' (cs ! nat (n - 1)) (fst c))
           (\<lambda>found. case found of
              None \<Rightarrow> Inr (AList.update ''Courses'' (JList (pop (nat (n - 1)) cs)) d)
            | Some j \<Rightarrow> deduct (AList.update ''Courses'' (JList (pop (nat (n - 1)) cs)) d)
                         (fst c ! j)) = Inr d2"
    and r: "records' = records[i := JObj d2]"
    by (rule unregister_scan_written) blast
  have "others [''Courses'', ''Balance''] (JObj d2) = others [''Courses'', ''Balance''] (JObj d)"
    using step by (auto simp: and_then_Inr others_update split: option.splits dest!: deduct_others)
  moreover have "others [''Courses'', ''Balance''] (JObj d) \<noteq> None"
    by (simp add: others_def)
  ultimately show ?thesis
    using f unfolding r by (intro touches_onlyI) (simp_all add: d)
qed

lemma commit_touches:
  assumes "\<And>records'. written eff = Some records' \<Longrightarrow> touches_only keys mem_id records records'"
  shows "world_after (commit dumps file_name w pre eff) = w \<or>
         (\<exists>records'. touches_only keys mem_id records records' \<and>
            world_after (commit dumps file_name w pre eff) =
              fst (write_record dumps file_name records' w))"
  using assms by (cases "written eff") (auto simp: world_after_commit)

lemma register_sara_changes:
  "world_after (register_for_course example_loads example_dumps ''MEM1002'' (Some 1001) campus) \<noteq>
   campus"
proof
  assume "world_after (register_for_course example_loads example_dumps ''MEM1002'' (Some 1001)
      campus) = campus"
  then have "read_records_file example_loads ''students.json''
      (fst (write_record example_dumps ''students.json''
        [student_sara_registered, student_omar, student_lina] campus)) =
      read_records_file example_loads ''students.json'' campus"
    by (simp add: register_sara_outcome)
  then have "student_sara_registered = student_sara"
    by (simp add: read_students_registered read_students)
  then show False
    by (simp add: student_sara_registered_def student_sara_def)
qed

lemma matches_JStr: "matches key (JStr s) r \<longleftrightarrow> field r key = Some (JStr s)"
  by (auto simp: matches_def py_eq_JStr split: option.splits)

lemma unregister_scan_found:
  assumes "found_first ''ID'' (JStr mem_id) records i"
    and "records ! i = JObj d" and "map_of d ''Courses'' = Some (JList cs)"
    and "1 \<le> n" and "n \<le> int (length cs)"
  shows "unregister_scan mem_id (Some n) records (Inr c) =
         (case and_then (scan ''Subject'' (cs ! nat (n - 1)) (fst c))
                 (\<lambda>found. case found of
                    None \<Rightarrow> Inr (AList.update ''Courses'' (JList (pop (nat (n - 1)) cs)) d)
                  | Some j \<Rightarrow>
                     deduct (AList.update ''Courses'' (JList (pop (nat (n - 1)) cs)) d)
                       (fst c ! j)) of
            Inl e \<Rightarrow> fail (snd c) e
          | Inr d2 \<Rightarrow>
             \<lparr>said_before = snd c, written = Some (records[i := JObj d2]),
              said_after = [Course_unregistered (cs ! nat (n - 1))], raised = None\<rparr>)"
proof -
  have "cs \<noteq> []"
    using assms(4,5) by auto
  with assms show ?thesis
    by (simp add: unregister_scan_def scan_found [symmetric] Let_def)
qed

lemma deduct_Inr:
  assumes "map_of d ''Balance'' = Some balance" and "field course ''Cost'' = Some cost"
    and "py_sub balance cost = Inr balance'"
  shows "deduct d course = Inr (AList.update ''Balance'' balance' d)"
  using assms by (simp add: deduct_def and_then_def getitem_field [symmetric])


lemma register_scan_unreadable:
  assumes "found_first ''ID'' (JStr mem_id) records i"
    and "field (records ! i) ''Courses'' = Some (JList cs)" and "length cs < 5"
    and "field (records ! i) ''Balance'' = Some b" and "num_val b = Some x" and "x < 10000"
  shows "register_scan mem_id choice records (Inl e) = fail [] e"
proof -
  have "getitem (records ! i) ''Courses'' = Inr (JList cs)"
    "getitem (records ! i) ''Balance'' = Inr b"
    using assms(2,4) by (simp_all add: getitem_field)
  then show ?thesis
    using assms(1,3,5,6)
    by (simp add: register_scan_def scan_found [symmetric] and_then_def py_ge_def)
qed

lemma unregister_scan_unreadable:
  assumes "found_first ''ID'' (JStr mem_id) records i"
    and "records ! i = JObj d" and "map_of d ''Courses'' = Some (JList cs)"
    and "1 \<le> n" and "n \<le> int (length cs)"
  shows "unregister_scan mem_id (Some n) records (Inl e) =
         (if is_ValueError e then say [Invalid_input] else fail [] e)"
proof -
  have "cs \<noteq> []"
    using assms(4,5) by auto
  with assms show ?thesis
    by (simp add: unregister_scan_def scan_found [symmetric] Let_def)
qed


section \<open>The record store\<close>

text \<open>
  C3. Writing a sequence of records and reading the same file back returns exactly the
  records written, in the order written, and prints nothing, whenever the file can be
  opened for writing and the library functions agree on each record: the line that
  \<open>dumps\<close> makes of it holds no line break and \<open>loads\<close> parses it back to the record.
\<close>

theorem write_then_read:
  assumes "file_name \<notin> unwritable w"
    and "\<forall>r \<in> set records.
           loads (dumps r @ [LF]) = Inr r \<and> LF \<notin> set (dumps r) \<and> CR \<notin> set (dumps r)"
  shows "read_records_file loads file_name (fst (write_record dumps file_name records w)) =
         Inr (records, [])"
proof (rule read_lines)
  show "files (fst (write_record dumps file_name records w)) file_name =
        Some (Text (concat (map (\<lambda>l. l @ [LF]) (map dumps records))))"
    using assms(1) by (simp add: write_record_def comp_def)
  show "\<forall>l \<in> set (map dumps records). LF \<notin> set l \<and> CR \<notin> set l"
    using assms(2) by simp
  show "parse_lines loads (map (\<lambda>l. l @ [LF]) (map dumps records)) = Inr records"
    using assms(2) by (induction records) simp_all
qed

theorem write_then_read_witness:
  "read_records_file example_loads ''courses.json''
     (fst (write_record example_dumps ''courses.json'' [course_math, course_math] campus)) =
   Inr ([course_math, course_math], [])"
proof -
  have "''courses.json'' \<notin> unwritable campus"
    by (simp add: campus_def)
  moreover have "\<forall>r \<in> set [course_math, course_math].
      example_loads (example_dumps r @ [LF]) = Inr r \<and>
      LF \<notin> set (example_dumps r) \<and> CR \<notin> set (example_dumps r)"
    by (simp add: example_dumps_def example_loads_lines line_chars)
  ultimately show ?thesis
    by (rule write_then_read)
qed

subsection \<open>What the handler catches\<close>

lemma read_records_file_caught:
  "files w file_name = None \<Longrightarrow> read_records_file loads file_name w = Inr ([], [])"
  "files w file_name = Some (Text []) \<Longrightarrow> read_records_file loads file_name w = Inr ([], [])"
  "files w file_name = Some f \<Longrightarrow> load_all loads f = Inl JSONDecodeError \<Longrightarrow>
   read_records_file loads file_name w = Inr ([], [Error_reading_file])"
  by (simp_all add: read_records_file_def load_all_def)

lemma read_records_file_not_caught:
  "files w file_name = Some f \<Longrightarrow> load_all loads f = Inl e \<Longrightarrow> e \<noteq> JSONDecodeError \<Longrightarrow>
   read_records_file loads file_name w = Inl e"
  by (simp add: read_records_file_def)

lemma load_all_Undecodable:
  "parse_lines loads (file_lines (universal_newlines s)) = Inr records \<Longrightarrow>
   load_all loads (Undecodable s) = Inl UnicodeDecodeError"
  by (simp add: load_all_def)

lemma read_students_corrupt:
  "read_records_file example_loads ''students.json'' campus_corrupt =
   Inr ([student_sara, student_omar, student_lina], [])"
proof -
  have "files campus_corrupt ''students.json'' = files campus ''students.json''"
    by (simp add: campus_corrupt_def)
  then show ?thesis
    using read_students by (simp add: read_records_file_def)
qed

text \<open>
  C4. A file that does not exist, an empty file, and a file with a line that
  \<^verbatim>\<open>json.loads\<close> rejects are handled as the lemmas above state. A file that holds bytes
  which are not valid UTF-8 is not: the handler of \<open>read_records_file\<close> names
  \<^verbatim>\<open>JSONDecodeError\<close> and \<^verbatim>\<open>FileNotFoundError\<close> only, and the \<^verbatim>\<open>UnicodeDecodeError\<close>
  of the decoder is raised to the caller. With a course store of one such byte,
  \<open>read_records_file\<close> raises instead of returning no records, and
  \<open>register_for_course\<close>, which reads the course store outside any handler, ends in that
  exception.
\<close>

theorem read_records_file_raises:
  "read_records_file example_loads ''courses.json'' campus_corrupt = Inl UnicodeDecodeError \<and>
   register_for_course example_loads example_dumps ''MEM1002'' (Some 1001) campus_corrupt =
     \<lparr>world_after = campus_corrupt, printed = [], uncaught = Some UnicodeDecodeError\<rparr>"
proof -
  have "files campus_corrupt ''courses.json'' = Some (Undecodable [])"
    by (simp add: campus_corrupt_def)
  moreover have "load_all example_loads (Undecodable []) = Inl UnicodeDecodeError"
    by (rule load_all_Undecodable [where records = "[]"]) simp
  ultimately have raises:
    "read_records_file example_loads ''courses.json'' campus_corrupt = Inl UnicodeDecodeError"
    by (rule read_records_file_not_caught) simp
  have courses: "field ([student_sara, student_omar, student_lina] ! 0) ''Courses'' =
      Some (JList [JStr ''Math101'', JStr ''Art205''])"
    and balance: "field ([student_sara, student_omar, student_lina] ! 0) ''Balance'' =
      Some (JFloat 9999)"
    by (simp_all add: field_def student_sara_def)
  have "register_scan ''MEM1002'' (Some 1001) [student_sara, student_omar, student_lina]
      (Inl UnicodeDecodeError) = fail [] UnicodeDecodeError"
    by (rule register_scan_unreadable [OF campus_students(1) courses _ balance, where x = 9999])
       simp_all
  then show ?thesis
    by (simp add: raises register_for_course_def read_students_corrupt commit_def fail_def)
qed

section \<open>Employee objects\<close>

text \<open>
  C9. \<open>remove_course\<close> called with a course that is not in the employee's list returns
  the employee as it was: the list of courses, the salary and every other attribute are
  unchanged. The method has no way to raise.
\<close>

theorem remove_course_absent:
  "course \<notin> set (Employee_courses self) \<Longrightarrow> remove_course self course = self"
  by (simp add: remove_course_def)

theorem remove_course_absent_witness:
  "remove_course
     (assign_course (Employee_init ''Ada'' ''MEM1001'' ''1980-05-06'' [] ''Mathematics'') 7) 8 =
   assign_course (Employee_init ''Ada'' ''MEM1001'' ''1980-05-06'' [] ''Mathematics'') 7"
proof -
  have "8 \<notin> set (Employee_courses
      (assign_course (Employee_init ''Ada'' ''MEM1001'' ''1980-05-06'' [] ''Mathematics'') 7))"
    by (simp add: assign_course_def Employee_init_def)
  then show ?thesis
    by (rule remove_course_absent)
qed

section \<open>Salary\<close>

text \<open>
  C1. Run any sequence of assignments and unassignments on an employee store. The store
  keeps its length; every record that is not what it was at the start holds a sequence
  of courses and the salary 30000 + 5000 for each of them, since each operation that
  writes sets the salary from the length of the courses it has just changed; and when
  every record of the store obeyed the salary rule at the start, every record obeys it
  at the end.
\<close>

theorem salary_recomputed:
  "length (run_employee_ops ops employees) = length employees \<and>
   (\<forall>i < length employees.
      run_employee_ops ops employees ! i = employees ! i \<or>
      salary_ok (run_employee_ops ops employees ! i)) \<and>
   ((\<forall>r \<in> set employees. salary_ok r) \<longrightarrow>
    (\<forall>r \<in> set (run_employee_ops ops employees). salary_ok r))"
proof -
  have step: "length (run_employee_ops ops employees) = length employees \<and>
      (\<forall>i < length employees.
        run_employee_ops ops employees ! i = employees ! i \<or>
        salary_ok (run_employee_ops ops employees ! i))"
  proof (induction ops arbitrary: employees)
    case Nil
    show ?case by simp
  next
    case (Cons op ops)
    let ?mid = "employee_step op employees"
    have one: "length ?mid = length employees"
      "\<forall>i < length employees. ?mid ! i = employees ! i \<or> salary_ok (?mid ! i)"
      using employee_step_salary [of op employees] by simp_all
    have rest: "length (run_employee_ops ops ?mid) = length ?mid"
      "\<forall>i < length ?mid. run_employee_ops ops ?mid ! i = ?mid ! i \<or>
         salary_ok (run_employee_ops ops ?mid ! i)"
      using Cons.IH [of ?mid] by simp_all
    show ?case
      using one rest by (auto simp: all_conj_distrib) metis
  qed
  moreover have "\<forall>r \<in> set (run_employee_ops ops employees). salary_ok r"
    if "\<forall>r \<in> set employees. salary_ok r"
    using step that unfolding all_set_conv_all_nth by metis
  ultimately show ?thesis
    by blast
qed

theorem salary_recomputed_witness:
  "salary_ok (run_employee_ops
     [Assign ''MEM1001'' 1001 [course_math], Unassign ''MEM1001'' (Some 1),
      Assign ''MEM1001'' 1001 [course_math]] [employee_ada] ! 0)"
proof -
  let ?ops = "[Assign ''MEM1001'' 1001 [course_math], Unassign ''MEM1001'' (Some 1),
      Assign ''MEM1001'' 1001 [course_math]]"
  have start: "\<forall>r \<in> set [employee_ada]. salary_ok r"
    by (simp add: salary_ok_def employee_ada_def)
  note fact = salary_recomputed [of ?ops "[employee_ada]"]
  from fact have len: "length (run_employee_ops ?ops [employee_ada]) = length [employee_ada]"
    by (rule conjunct1)
  from fact start have "\<forall>r \<in> set (run_employee_ops ?ops [employee_ada]). salary_ok r"
    by blast
  moreover from len have "run_employee_ops ?ops [employee_ada] ! 0 \<in>
      set (run_employee_ops ?ops [employee_ada])"
    by (intro nth_mem) simp
  ultimately show ?thesis
    by (rule bspec)
qed

section \<open>Assigning a course twice\<close>

text \<open>
  C6. An assignment does not look whether the course is already among the employee's
  courses. Assigning the course with a given CRN twice to an employee who holds the
  courses \<open>cs\<close> leaves the courses \<open>cs\<close> followed by the course twice and the salary
  40000 + 5000 for each course of \<open>cs\<close>; unassigning number 1 then removes the first
  course of that sequence and leaves the salary 35000 + 5000 for each course of \<open>cs\<close>.
  For an employee without courses these are two courses and 40000, then one course and
  35000.
\<close>

theorem assign_twice_then_unassign:
  assumes "found_first ''ID'' (JStr mem_id) employees i"
    and "field (employees ! i) ''Courses'' = Some (JList cs)"
    and "list_all is_dict cs"
    and "found_first ''CRN'' (JInt crn) courses j"
  shows "field (run_employee_ops [Assign mem_id crn courses, Assign mem_id crn courses]
                  employees ! i) ''Courses'' = Some (JList (cs @ [courses ! j, courses ! j])) \<and>
         field (run_employee_ops [Assign mem_id crn courses, Assign mem_id crn courses]
                  employees ! i) ''Salary'' = Some (JInt (40000 + 5000 * int (length cs))) \<and>
         field (run_employee_ops [Assign mem_id crn courses, Assign mem_id crn courses,
                  Unassign mem_id (Some 1)] employees ! i) ''Courses'' =
           Some (JList (tl (cs @ [courses ! j, courses ! j]))) \<and>
         field (run_employee_ops [Assign mem_id crn courses, Assign mem_id crn courses,
                  Unassign mem_id (Some 1)] employees ! i) ''Salary'' =
           Some (JInt (35000 + 5000 * int (length cs)))"
proof -
  let ?c = "courses ! j"
  have i: "i < length employees"
    using assms(1) by (rule found_first_length)
  obtain e1 where s1: "employee_step (Assign mem_id crn courses) employees = employees[i := e1]"
    and f1: "found_first ''ID'' (JStr mem_id) (employees[i := e1]) i"
    and c1: "field e1 ''Courses'' = Some (JList (cs @ [?c]))"
    using assms(1,2,4) by (rule assign_step)
  let ?one = "employees[i := e1]"
  have "field (?one ! i) ''Courses'' = Some (JList (cs @ [?c]))"
    using i c1 by simp
  with f1 obtain e2 where s2: "employee_step (Assign mem_id crn courses) ?one = ?one[i := e2]"
    and f2: "found_first ''ID'' (JStr mem_id) (?one[i := e2]) i"
    and c2: "field e2 ''Courses'' = Some (JList ((cs @ [?c]) @ [?c]))"
    and p2: "field e2 ''Salary'' = Some (JInt (30000 + 5000 * int (length ((cs @ [?c]) @ [?c]))))"
    using assms(4) by (rule assign_step)
  let ?two = "?one[i := e2]"
  have two: "run_employee_ops [Assign mem_id crn courses, Assign mem_id crn courses] employees =
      ?two"
    by (simp only: run_employee_ops.simps s1 s2)
  have at2: "?two ! i = e2"
    using i by simp
  have "is_dict ?c"
    using assms(4) by (rule found_first_is_dict)
  with assms(3) have dicts: "list_all is_dict ((cs @ [?c]) @ [?c])"
    by simp
  have fld: "field (?two ! i) ''Courses'' = Some (JList ((cs @ [?c]) @ [?c]))"
    using at2 c2 by simp
  have "1 \<le> (1::int)" and "(1::int) \<le> int (length ((cs @ [?c]) @ [?c]))"
    by simp_all
  with f2 fld dicts
  obtain e3 where s3: "employee_step (Unassign mem_id (Some 1)) ?two = ?two[i := e3]"
    and c3: "field e3 ''Courses'' = Some (JList (pop (nat (1 - 1)) ((cs @ [?c]) @ [?c])))"
    and p3: "field e3 ''Salary'' =
        Some (JInt (30000 + 5000 * int (length (pop (nat (1 - 1)) ((cs @ [?c]) @ [?c])))))"
    by (rule unassign_step)
  have three: "run_employee_ops [Assign mem_id crn courses, Assign mem_id crn courses,
      Unassign mem_id (Some 1)] employees = ?two[i := e3]"
    by (simp only: run_employee_ops.simps s1 s2 s3)
  have at3: "?two[i := e3] ! i = e3"
    using i by simp
  have "pop (nat (1 - 1)) ((cs @ [?c]) @ [?c]) = tl (cs @ [?c, ?c])"
    by (simp add: pop_0)
  with c3 p3 have "field e3 ''Courses'' = Some (JList (tl (cs @ [?c, ?c])))"
    and "field e3 ''Salary'' = Some (JInt (35000 + 5000 * int (length cs)))"
    by simp_all
  moreover from c2 p2 have "field e2 ''Courses'' = Some (JList (cs @ [?c, ?c]))"
    and "field e2 ''Salary'' = Some (JInt (40000 + 5000 * int (length cs)))"
    by simp_all
  ultimately show ?thesis
    unfolding two three at2 at3 by blast
qed

theorem assign_twice_then_unassign_witness:
  "field (run_employee_ops [Assign ''MEM1001'' 1001 [course_math],
            Assign ''MEM1001'' 1001 [course_math]] [employee_ada] ! 0) ''Courses'' =
     Some (JList [course_math, course_math]) \<and>
   field (run_employee_ops [Assign ''MEM1001'' 1001 [course_math],
            Assign ''MEM1001'' 1001 [course_math]] [employee_ada] ! 0) ''Salary'' =
     Some (JInt 40000) \<and>
   field (run_employee_ops [Assign ''MEM1001'' 1001 [course_math],
            Assign ''MEM1001'' 1001 [course_math], Unassign ''MEM1001'' (Some 1)]
            [employee_ada] ! 0) ''Courses'' = Some (JList [course_math]) \<and>
   field (run_employee_ops [Assign ''MEM1001'' 1001 [course_math],
            Assign ''MEM1001'' 1001 [course_math], Unassign ''MEM1001'' (Some 1)]
            [employee_ada] ! 0) ''Salary'' = Some (JInt 35000)"
proof -
  have "found_first ''ID'' (JStr ''MEM1001'') [employee_ada] 0"
    by (simp add: found_first_def matches_def not_found_def field_def employee_ada_def)
  moreover have "field ([employee_ada] ! 0) ''Courses'' = Some (JList [])"
    by (simp add: field_def employee_ada_def)
  moreover have "list_all is_dict []"
    by simp
  moreover have "found_first ''CRN'' (JInt 1001) [course_math] 0"
    by (simp add: found_first_def matches_def not_found_def field_def course_math_def)
  ultimately show ?thesis
    using assign_twice_then_unassign
      [of "''MEM1001''" "[employee_ada]" 0 "[]" 1001 "[course_math]" 0]
    by simp
qed

section \<open>Registration\<close>

text \<open>
  C2. When the student found for the member identifier holds five courses or more, or
  holds fewer and has a balance of at least 10000, \<open>register_for_course\<close> prints its
  refusal, raises nothing and leaves every file as it was, whatever is entered as CRN.
\<close>

theorem register_refused:
  assumes "read_records_file loads ''students.json'' w = Inr (records, ms)"
    and "found_first ''ID'' (JStr mem_id) records i"
    and "field (records ! i) ''Courses'' = Some (JList cs)"
    and "5 \<le> length cs \<or>
         (\<exists>b x. field (records ! i) ''Balance'' = Some b \<and> num_val b = Some x \<and> 10000 \<le> x)"
  shows "register_for_course loads dumps mem_id choice w =
         \<lparr>world_after = w,
          printed = ms @ [if 5 \<le> length cs then Too_many_courses else Balance_too_high],
          uncaught = None\<rparr>"
  using assms(1) register_scan_refused [OF assms(2-4)]
  by (simp add: register_for_course_def commit_def say_def)

theorem register_refused_witness:
  "register_for_course example_loads example_dumps ''MEM1004'' (Some 1001) campus =
     \<lparr>world_after = campus, printed = [Too_many_courses], uncaught = None\<rparr> \<and>
   register_for_course example_loads example_dumps ''MEM1003'' (Some 1001) campus =
     \<lparr>world_after = campus, printed = [Balance_too_high], uncaught = None\<rparr>"
proof -
  have "field ([student_sara, student_omar, student_lina] ! 2) ''Courses'' =
      Some (JList [JStr ''Bio110'', JStr ''Chem120'', JStr ''Phys130'', JStr ''Hist140'',
        JStr ''Arab150''])"
    by (simp add: field_def student_lina_def)
  moreover have "field ([student_sara, student_omar, student_lina] ! 1) ''Courses'' =
      Some (JList [])"
    by (simp add: field_def student_omar_def)
  moreover have "\<exists>b x. field ([student_sara, student_omar, student_lina] ! 1) ''Balance'' = Some b \<and>
      num_val b = Some x \<and> 10000 \<le> x"
    by (simp add: field_def student_omar_def)
  ultimately show ?thesis
    using register_refused [OF read_students campus_students(3), of _ example_dumps "Some 1001"]
      register_refused [OF read_students campus_students(2), of _ example_dumps "Some 1001"]
    by simp
qed

text \<open>
  C7, as the specification has it: a student whose balance is exactly 9999 is refused
  whatever the CRN and the cost. The code refuses from 10000 on: the student of the
  example has the balance 9999.0 and two courses, registers for the course of CRN 1001
  that costs 500.0, and the store then holds the student with that course and the
  balance 10499.0.
\<close>

theorem register_at_9999_counterexample:
  "field student_sara ''Balance'' = Some (JFloat 9999) \<and>
   printed (register_for_course example_loads example_dumps ''MEM1002'' (Some 1001) campus) =
     [Course_registered] \<and>
   read_records_file example_loads ''students.json''
     (world_after (register_for_course example_loads example_dumps ''MEM1002'' (Some 1001)
        campus)) =
     Inr ([student_sara_registered, student_omar, student_lina], []) \<and>
   field student_sara_registered ''Balance'' = Some (JFloat 10499)"
proof -
  have "field student_sara ''Balance'' = Some (JFloat 9999)"
    by (simp add: field_def student_sara_def)
  moreover have "field student_sara_registered ''Balance'' = Some (JFloat 10499)"
    by (simp add: field_def student_sara_registered_def)
  ultimately show ?thesis
    by (simp add: register_sara_outcome read_students_registered)
qed

text \<open>
  C7, amended: a student whose balance is exactly 10000 is refused whatever is entered
  as CRN, and no file changes, so that the balance stays 10000.
\<close>

theorem register_refused_at_10000:
  assumes "read_records_file loads ''students.json'' w = Inr (records, ms)"
    and "found_first ''ID'' (JStr mem_id) records i"
    and "field (records ! i) ''Courses'' = Some (JList cs)"
    and "field (records ! i) ''Balance'' = Some b" and "num_val b = Some 10000"
  shows "register_for_course loads dumps mem_id choice w =
         \<lparr>world_after = w,
          printed = ms @ [if 5 \<le> length cs then Too_many_courses else Balance_too_high],
          uncaught = None\<rparr>"
proof -
  have "5 \<le> length cs \<or>
      (\<exists>b x. field (records ! i) ''Balance'' = Some b \<and> num_val b = Some x \<and> 10000 \<le> x)"
    using assms(4,5) by auto
  with assms(2,3)
  have "register_scan mem_id choice records (read_records_file loads ''courses.json'' w) =
      say [if 5 \<le> length cs then Too_many_courses else Balance_too_high]"
    by (rule register_scan_refused)
  with assms(1) show ?thesis
    by (simp add: register_for_course_def commit_def say_def)
qed

theorem register_refused_at_10000_witness:
  "field student_omar ''Balance'' = Some (JFloat 10000) \<and>
   register_for_course example_loads example_dumps ''MEM1003'' (Some 1001) campus =
     \<lparr>world_after = campus, printed = [Balance_too_high], uncaught = None\<rparr>"
proof -
  have "field ([student_sara, student_omar, student_lina] ! 1) ''Courses'' = Some (JList [])"
    by (simp add: field_def student_omar_def)
  moreover have "field ([student_sara, student_omar, student_lina] ! 1) ''Balance'' =
      Some (JFloat 10000)"
    by (simp add: field_def student_omar_def)
  moreover have "num_val (JFloat 10000) = Some 10000"
    by simp
  ultimately show ?thesis
    using register_refused_at_10000
      [OF read_students campus_students(2), of "[]" "JFloat 10000" example_dumps "Some 1001"]
    by simp
qed

section \<open>Assigning to a record without courses\<close>

text \<open>
  C10. When the employee found for the member identifier is a record without the field
  \<^verbatim>\<open>Courses\<close> and the CRN is that of a course, \<open>assign_course_to_employee\<close> writes the
  employee store with that record given the field \<^verbatim>\<open>Courses\<close> holding the one course
  and the salary 35000, every other record as it was. The missing field raises nothing:
  when the record has a name and the course a subject, the operation ends without an
  exception and reports the assignment.
\<close>

theorem assign_creates_courses:
  assumes "read_records_file loads ''employees.json'' w = Inr (employees, ms)"
    and "read_records_file loads ''courses.json'' w = Inr (courses, cms)"
    and "found_first ''ID'' (JStr mem_id) employees i"
    and "employees ! i = JObj d" and "map_of d ''Courses'' = None"
    and "found_first ''CRN'' (JInt crn) courses j"
    and "employee' = JObj (AList.update ''Salary'' (JInt 35000)
           (AList.update ''Courses'' (JList [courses ! j]) d))"
  shows "world_after (assign_course_to_employee loads dumps mem_id (Some crn) w) =
           fst (write_record dumps ''employees.json'' (employees[i := employee']) w) \<and>
         field employee' ''Courses'' = Some (JList [courses ! j]) \<and>
         field employee' ''Salary'' = Some (JInt 35000) \<and>
         (\<forall>name subject.
            map_of d ''Name'' = Some name \<and> field (courses ! j) ''Subject'' = Some subject \<longrightarrow>
            uncaught (assign_course_to_employee loads dumps mem_id (Some crn) w) = None \<and>
            printed (assign_course_to_employee loads dumps mem_id (Some crn) w) =
              ms @ cms @ snd (write_record dumps ''employees.json'' (employees[i := employee']) w) @
              [Course_assigned subject name])"
proof -
  let ?eff = "assign_scan mem_id crn employees courses"
  have run: "assign_course_to_employee loads dumps mem_id (Some crn) w =
      commit dumps ''employees.json'' w (ms @ cms) ?eff"
    by (simp add: assign_course_to_employee_def assms(1,2))
  have a: "assign_in_record (employees ! i) (courses ! j) = Inr employee'"
    by (simp add: assms(4,5,7) assign_in_record_JObj)
  have wr: "written ?eff = Some (employees[i := employee'])"
    using assms(3,6) a by (rule assign_scan_found)
  have "world_after (commit dumps ''employees.json'' w (ms @ cms) ?eff) =
      fst (write_record dumps ''employees.json'' (employees[i := employee']) w)"
    by (simp add: world_after_commit wr)
  moreover have "field employee' ''Courses'' = Some (JList [courses ! j])"
    "field employee' ''Salary'' = Some (JInt 35000)"
    by (simp_all add: assms(7) field_update)
  moreover have "uncaught (commit dumps ''employees.json'' w (ms @ cms) ?eff) = None \<and>
      printed (commit dumps ''employees.json'' w (ms @ cms) ?eff) =
        ms @ cms @ snd (write_record dumps ''employees.json'' (employees[i := employee']) w) @
        [Course_assigned subject name]"
    if "map_of d ''Name'' = Some name" "field (courses ! j) ''Subject'' = Some subject"
    for name subject
  proof -
    have "getitem (courses ! j) ''Subject'' = Inr subject"
      using that(2) by (simp add: getitem_field)
    moreover have "getitem employee' ''Name'' = Inr name"
      using that(1) by (simp add: assms(7) update_conv')
    ultimately have "raised ?eff = None" "said_after ?eff = [Course_assigned subject name]"
      "said_before ?eff = []"
      using assign_scan_outcome [OF assms(3,6) a] by (simp_all add: and_then_def)
    then show ?thesis
      by (simp add: commit_def wr split: prod.splits)
  qed
  ultimately show ?thesis
    unfolding run by blast
qed

theorem assign_creates_courses_witness:
  "field employee_noor ''Courses'' = None \<and>
   uncaught (assign_course_to_employee example_loads example_dumps ''MEM1005'' (Some 1001)
      campus_legacy) = None \<and>
   printed (assign_course_to_employee example_loads example_dumps ''MEM1005'' (Some 1001)
      campus_legacy) = [Course_assigned (JStr ''Math101'') (JStr ''Noor'')] \<and>
   (\<exists>r. world_after (assign_course_to_employee example_loads example_dumps ''MEM1005''
           (Some 1001) campus_legacy) =
         fst (write_record example_dumps ''employees.json'' [r] campus_legacy) \<and>
        field r ''Courses'' = Some (JList [course_math]) \<and>
        field r ''Salary'' = Some (JInt 35000))"
proof -
  obtain d where d: "employee_noor = JObj d" "map_of d ''Courses'' = None"
    "map_of d ''Name'' = Some (JStr ''Noor'')"
    by (simp add: employee_noor_def)
  have none: "field employee_noor ''Courses'' = None"
    by (simp add: field_def d)
  have "found_first ''ID'' (JStr ''MEM1005'') [employee_noor] 0"
    by (simp add: found_first_def matches_def not_found_def field_def employee_noor_def)
  moreover have "[employee_noor] ! 0 = JObj d"
    by (simp add: d)
  moreover note d(2)
  moreover have "found_first ''CRN'' (JInt 1001) [course_math] 0"
    by (simp add: found_first_def matches_def not_found_def field_def course_math_def)
  ultimately have fact: "world_after (assign_course_to_employee example_loads example_dumps
        ''MEM1005'' (Some 1001) campus_legacy) =
      fst (write_record example_dumps ''employees.json'' ([employee_noor][0 := r]) campus_legacy) \<and>
      field r ''Courses'' = Some (JList [[course_math] ! 0]) \<and>
      field r ''Salary'' = Some (JInt 35000) \<and>
      (\<forall>name subject.
         map_of d ''Name'' = Some name \<and> field ([course_math] ! 0) ''Subject'' = Some subject \<longrightarrow>
         uncaught (assign_course_to_employee example_loads example_dumps ''MEM1005'' (Some 1001)
           campus_legacy) = None \<and>
         printed (assign_course_to_employee example_loads example_dumps ''MEM1005'' (Some 1001)
           campus_legacy) =
           [] @ [] @ snd (write_record example_dumps ''employees.json'' ([employee_noor][0 := r])
             campus_legacy) @ [Course_assigned subject name])"
    if "r = JObj (AList.update ''Salary'' (JInt 35000)
           (AList.update ''Courses'' (JList [[course_math] ! 0]) d))" for r
    using that by (rule assign_creates_courses [OF read_legacy])
  have subject: "field ([course_math] ! 0) ''Subject'' = Some (JStr ''Math101'')"
    by (simp add: field_def course_math_def)
  have "unwritable campus_legacy = {}"
    by (simp add: campus_legacy_def campus_def)
  then have quiet: "snd (write_record example_dumps ''employees.json'' rs campus_legacy) = []" for rs
    by (simp add: write_record_def)
  show ?thesis
    using fact [OF refl] d(3) subject none by (auto simp: quiet)
qed

section \<open>What an operation may change\<close>

text \<open>
  C8. Each of the four operations either leaves every file as it was, or writes its own
  store once, with records that differ from the records read at most in the first record
  whose \<^verbatim>\<open>ID\<close> is the member identifier: the other records are written as read and in
  the order read, and in that record every field but \<^verbatim>\<open>Courses\<close> and \<^verbatim>\<open>Salary\<close> (for
  an employee; \<^verbatim>\<open>Courses\<close> and \<^verbatim>\<open>Balance\<close> for a student) keeps its value and its
  place.
\<close>

theorem operations_touch_one_record:
  "(world_after (assign_course_to_employee loads dumps mem_id crn w) = w \<or>
    (\<exists>employees ms employees'.
       read_records_file loads ''employees.json'' w = Inr (employees, ms) \<and>
       touches_only [''Courses'', ''Salary''] mem_id employees employees' \<and>
       world_after (assign_course_to_employee loads dumps mem_id crn w) =
         fst (write_record dumps ''employees.json'' employees' w))) \<and>
   (world_after (unassign_course loads dumps mem_id choice w) = w \<or>
    (\<exists>employees ms employees'.
       read_records_file loads ''employees.json'' w = Inr (employees, ms) \<and>
       touches_only [''Courses'', ''Salary''] mem_id employees employees' \<and>
       world_after (unassign_course loads dumps mem_id choice w) =
         fst (write_record dumps ''employees.json'' employees' w))) \<and>
   (world_after (register_for_course loads dumps mem_id choice w) = w \<or>
    (\<exists>students ms students'.
       read_records_file loads ''students.json'' w = Inr (students, ms) \<and>
       touches_only [''Courses'', ''Balance''] mem_id students students' \<and>
       world_after (register_for_course loads dumps mem_id choice w) =
         fst (write_record dumps ''students.json'' students' w))) \<and>
   (world_after (unregister_from_course loads dumps mem_id choice w) = w \<or>
    (\<exists>students ms students'.
       read_records_file loads ''students.json'' w = Inr (students, ms) \<and>
       touches_only [''Courses'', ''Balance''] mem_id students students' \<and>
       world_after (unregister_from_course loads dumps mem_id choice w) =
         fst (write_record dumps ''students.json'' students' w)))"
proof (intro conjI)
  show "world_after (assign_course_to_employee loads dumps mem_id crn w) = w \<or>
    (\<exists>employees ms employees'.
       read_records_file loads ''employees.json'' w = Inr (employees, ms) \<and>
       touches_only [''Courses'', ''Salary''] mem_id employees employees' \<and>
       world_after (assign_course_to_employee loads dumps mem_id crn w) =
         fst (write_record dumps ''employees.json'' employees' w))"
  proof (cases crn)
    case None
    then show ?thesis
      by (simp add: assign_course_to_employee_def raising_def)
  next
    case (Some k)
    show ?thesis
    proof (cases "read_records_file loads ''employees.json'' w")
      case (Inl e)
      with Some show ?thesis
        by (simp add: assign_course_to_employee_def raising_def)
    next
      case employees: (Inr p)
      show ?thesis
      proof (cases "read_records_file loads ''courses.json'' w")
        case (Inl e)
        with Some employees show ?thesis
          by (simp add: assign_course_to_employee_def raising_def split_beta)
      next
        case (Inr q)
        with Some employees show ?thesis
          using commit_touches [OF assign_scan_touches]
          by (cases p) (simp add: assign_course_to_employee_def split_beta)
      qed
    qed
  qed
  show "world_after (unassign_course loads dumps mem_id choice w) = w \<or>
    (\<exists>employees ms employees'.
       read_records_file loads ''employees.json'' w = Inr (employees, ms) \<and>
       touches_only [''Courses'', ''Salary''] mem_id employees employees' \<and>
       world_after (unassign_course loads dumps mem_id choice w) =
         fst (write_record dumps ''employees.json'' employees' w))"
  proof (cases "read_records_file loads ''employees.json'' w")
    case (Inl e)
    then show ?thesis
      by (simp add: unassign_course_def raising_def)
  next
    case (Inr p)
    then show ?thesis
      using commit_touches [OF unassign_scan_touches]
      by (cases p) (simp add: unassign_course_def)
  qed
  show "world_after (register_for_course loads dumps mem_id choice w) = w \<or>
    (\<exists>students ms students'.
       read_records_file loads ''students.json'' w = Inr (students, ms) \<and>
       touches_only [''Courses'', ''Balance''] mem_id students students' \<and>
       world_after (register_for_course loads dumps mem_id choice w) =
         fst (write_record dumps ''students.json'' students' w))"
  proof (cases "read_records_file loads ''students.json'' w")
    case (Inl e)
    then show ?thesis
      by (simp add: register_for_course_def raising_def)
  next
    case (Inr p)
    then show ?thesis
      using commit_touches [OF register_scan_touches]
      by (cases p) (simp add: register_for_course_def)
  qed
  show "world_after (unregister_from_course loads dumps mem_id choice w) = w \<or>
    (\<exists>students ms students'.
       read_records_file loads ''students.json'' w = Inr (students, ms) \<and>
       touches_only [''Courses'', ''Balance''] mem_id students students' \<and>
       world_after (unregister_from_course loads dumps mem_id choice w) =
         fst (write_record dumps ''students.json'' students' w))"
  proof (cases "read_records_file loads ''students.json'' w")
    case (Inl e)
    then show ?thesis
      by (simp add: unregister_from_course_def raising_def)
  next
    case (Inr p)
    then show ?thesis
      using commit_touches [OF unregister_scan_touches]
      by (cases p) (simp add: unregister_from_course_def)
  qed
qed

theorem operations_touch_one_record_witness:
  "world_after (register_for_course example_loads example_dumps ''MEM1002'' (Some 1001) campus) \<noteq>
     campus \<and>
   (\<exists>students'.
      touches_only [''Courses'', ''Balance''] ''MEM1002''
        [student_sara, student_omar, student_lina] students' \<and>
      world_after (register_for_course example_loads example_dumps ''MEM1002'' (Some 1001)
        campus) = fst (write_record example_dumps ''students.json'' students' campus))"
  using operations_touch_one_record
    [of example_loads example_dumps "''MEM1002''" "Some 1001" campus "Some 1001"]
    register_sara_changes
  by (simp add: read_students)

section \<open>Unregistration\<close>

text \<open>
  C5. Let the student found for the member identifier hold the courses \<open>cs\<close>, let the
  number entered be between 1 and the number of these courses, and let the student store
  be writable. \<open>unregister_from_course\<close> then removes the element of that number from
  the courses. When the course store has a first course whose subject equals the removed
  element (for a string: the same text), the cost of that course is subtracted from the
  balance; when every course has another subject, the balance is left as it is. In both
  cases the student store is written with the record so changed, the removal is
  reported and nothing is raised.
\<close>

theorem unregister_deducts_first_match:
  assumes "read_records_file loads ''students.json'' w = Inr (records, ms)"
    and "read_records_file loads ''courses.json'' w = Inr (courses, cms)"
    and "''students.json'' \<notin> unwritable w"
    and "found_first ''ID'' (JStr mem_id) records i"
    and "records ! i = JObj d" and "map_of d ''Courses'' = Some (JList cs)"
    and "1 \<le> n" and "n \<le> int (length cs)"
    and "removed = cs ! nat (n - 1)"
    and "d1 = AList.update ''Courses'' (JList (pop (nat (n - 1)) cs)) d"
  shows "(\<forall>j balance cost balance'.
            found_first ''Subject'' removed courses j \<and> map_of d ''Balance'' = Some balance \<and>
            field (courses ! j) ''Cost'' = Some cost \<and> py_sub balance cost = Inr balance' \<longrightarrow>
            unregister_from_course loads dumps mem_id (Some n) w =
              \<lparr>world_after = fst (write_record dumps ''students.json''
                   (records[i := JObj (AList.update ''Balance'' balance' d1)]) w),
               printed = ms @ cms @ [Course_unregistered removed], uncaught = None\<rparr>) \<and>
         (not_found ''Subject'' removed courses \<longrightarrow>
            unregister_from_course loads dumps mem_id (Some n) w =
              \<lparr>world_after = fst (write_record dumps ''students.json'' (records[i := JObj d1]) w),
               printed = ms @ cms @ [Course_unregistered removed], uncaught = None\<rparr>)"
proof -
  note scan = unregister_scan_found [OF assms(4-8), of "(courses, cms)", folded assms(9,10)]
  have run: "unregister_from_course loads dumps mem_id (Some n) w =
      commit dumps ''students.json'' w ms
        (unregister_scan mem_id (Some n) records (Inr (courses, cms)))"
    by (simp add: unregister_from_course_def assms(1,2))
  have quiet: "snd (write_record dumps ''students.json'' rs w) = []" for rs
    using assms(3) by (simp add: write_record_def)
  have "unregister_from_course loads dumps mem_id (Some n) w =
      \<lparr>world_after = fst (write_record dumps ''students.json''
           (records[i := JObj (AList.update ''Balance'' balance' d1)]) w),
       printed = ms @ cms @ [Course_unregistered removed], uncaught = None\<rparr>"
    if "found_first ''Subject'' removed courses j" "map_of d ''Balance'' = Some balance"
      "field (courses ! j) ''Cost'' = Some cost" "py_sub balance cost = Inr balance'"
    for j balance cost balance'
  proof -
    have "map_of d1 ''Balance'' = Some balance"
      using that(2) by (simp add: assms(10) update_conv')
    then have "deduct d1 (courses ! j) = Inr (AList.update ''Balance'' balance' d1)"
      using that(3,4) by (rule deduct_Inr)
    moreover have "scan ''Subject'' removed courses = Inr (Some j)"
      using that(1) by (simp add: scan_found)
    ultimately show ?thesis
      unfolding run scan by (simp add: and_then_def commit_def quiet split_beta)
  qed
  moreover have "unregister_from_course loads dumps mem_id (Some n) w =
      \<lparr>world_after = fst (write_record dumps ''students.json'' (records[i := JObj d1]) w),
       printed = ms @ cms @ [Course_unregistered removed], uncaught = None\<rparr>"
    if "not_found ''Subject'' removed courses"
  proof -
    have "scan ''Subject'' removed courses = Inr None"
      using that by (simp add: scan_not_found)
    then show ?thesis
      unfolding run scan by (simp add: and_then_def commit_def quiet split_beta)
  qed
  ultimately show ?thesis
    by blast
qed

theorem unregister_deducts_first_match_witness:
  "(\<exists>r. unregister_from_course example_loads example_dumps ''MEM1002'' (Some 1) campus =
          \<lparr>world_after = fst (write_record example_dumps ''students.json''
               [r, student_omar, student_lina] campus),
           printed = [Course_unregistered (JStr ''Math101'')], uncaught = None\<rparr> \<and>
        field r ''Courses'' = Some (JList [JStr ''Art205'']) \<and>
        field r ''Balance'' = Some (JFloat 9499)) \<and>
   (\<exists>r. unregister_from_course example_loads example_dumps ''MEM1002'' (Some 2) campus =
          \<lparr>world_after = fst (write_record example_dumps ''students.json''
               [r, student_omar, student_lina] campus),
           printed = [Course_unregistered (JStr ''Art205'')], uncaught = None\<rparr> \<and>
        field r ''Courses'' = Some (JList [JStr ''Math101'']) \<and>
        field r ''Balance'' = Some (JFloat 9999))"
proof -
  obtain d where d: "student_sara = JObj d"
    "map_of d ''Courses'' = Some (JList [JStr ''Math101'', JStr ''Art205''])"
    "map_of d ''Balance'' = Some (JFloat 9999)"
    by (simp add: student_sara_def)
  have at: "[student_sara, student_omar, student_lina] ! 0 = JObj d"
    by (simp add: d)
  have w: "''students.json'' \<notin> unwritable campus"
    by (simp add: campus_writable)
  note fact = unregister_deducts_first_match
    [OF read_students read_courses w campus_students(1) at d(2) _ _ refl refl,
      where dumps = example_dumps]
  have math: "found_first ''Subject'' (JStr ''Math101'') [course_math] 0"
    "field ([course_math] ! 0) ''Cost'' = Some (JFloat 500)"
    by (simp_all add: found_first_def matches_def not_found_def field_def course_math_def)
  have sub: "py_sub (JFloat 9999) (JFloat 500) = Inr (JFloat 9499)"
    by (simp add: py_sub_def)
  have art: "not_found ''Subject'' (JStr ''Art205'') [course_math]"
    by (simp add: not_found_def matches_def field_def course_math_def)
  have one: "unregister_from_course example_loads example_dumps ''MEM1002'' (Some 1) campus =
      \<lparr>world_after = fst (write_record example_dumps ''students.json''
           ([student_sara, student_omar, student_lina]
              [0 := JObj (AList.update ''Balance'' (JFloat 9499)
                 (AList.update ''Courses'' (JList [JStr ''Art205'']) d))]) campus),
       printed = [Course_unregistered (JStr ''Math101'')], uncaught = None\<rparr>"
    using fact [of 1, THEN conjunct1, rule_format, of 0 "JFloat 9999" "JFloat 500" "JFloat 9499"]
      math d(3) sub
    by (simp add: pop_0)
  have two: "unregister_from_course example_loads example_dumps ''MEM1002'' (Some 2) campus =
      \<lparr>world_after = fst (write_record example_dumps ''students.json''
           ([student_sara, student_omar, student_lina]
              [0 := JObj (AList.update ''Courses'' (JList [JStr ''Math101'']) d)]) campus),
       printed = [Course_unregistered (JStr ''Art205'')], uncaught = None\<rparr>"
    using fact [of 2, THEN conjunct2, rule_format] art by (simp add: pop_def)
  show ?thesis
  proof (intro conjI exI)
    show "unregister_from_course example_loads example_dumps ''MEM1002'' (Some 1) campus =
      \<lparr>world_after = fst (write_record example_dumps ''students.json''
           [JObj (AList.update ''Balance'' (JFloat 9499)
              (AList.update ''Courses'' (JList [JStr ''Art205'']) d)),
            student_omar, student_lina] campus),
       printed = [Course_unregistered (JStr ''Math101'')], uncaught = None\<rparr>"
      using one by simp
    show "unregister_from_course example_loads example_dumps ''MEM1002'' (Some 2) campus =
      \<lparr>world_after = fst (write_record example_dumps ''students.json''
           [JObj (AList.update ''Courses'' (JList [JStr ''Math101'']) d),
            student_omar, student_lina] campus),
       printed = [Course_unregistered (JStr ''Art205'')], uncaught = None\<rparr>"
      using two by simp
  qed (simp_all add: field_def update_conv' d)
qed

end
